theory Spec2Isabelle
  imports Complex_Main
begin

section \<open>The material point method driver of fenics\_mpm\<close>

text \<open>
  The class \<open>Model\<close> of \<open>fenics_mpm/model.py\<close> links a finite-element grid model to a
  list of materials and drives the material point method. Every numerical kernel lives in
  a native engine object (\<open>self.mpm_cpp\<close>, built from \<open>mpm_module\<close>) and in the grid
  model; the Python methods call the engine, copy its arrays back into attributes of the
  materials and hand nodal fields to the grid model. The embedding therefore has two
  layers:
  \<^item> the driver: every method of \<open>Model\<close> is the sequence of calls it makes, in the order
    of the source; running a sequence appends each completed call to a log and stops at
    the first call that raises; the loop of \<open>mpm\<close> is a partial function whose value
    \<open>None\<close> means that it never returns;
  \<^item> the particle kinematics of the engine (deformation gradient, volume), whose source
    is the native module and which is modelled from the specification.
  Time and the time step are double-precision floating-point numbers, as the docstrings
  of \<open>Model\<close> and \<open>mpm\<close> type them: \<open>t += dt\<close> rounds to the nearest double.
  Console output (\<open>print_text\<close>, \<open>print_min_max\<close>), wall-clock timing and the
  construction of the four \<open>File\<close> handles are left out; the diagnostic \<open>print\<close>
  statements of the loop body are kept, because they index a particle and can raise.
\<close>

subsection \<open>Floating-point time\<close>

text \<open>
  A double is a finite real number, an infinity or NaN. The finite values that occur are
  the results of \<open>round_double\<close>: rounding to nearest, ties to even, with 53 significant
  bits, gradual underflow below \<open>2 ^ - 1022\<close> and overflow to an infinity from
  \<open>2 ^ 1024\<close> on. \<open>dle\<close>, \<open>deq\<close> and \<open>dadd\<close> are Python's \<open><=\<close>,
  \<open>==\<close> and \<open>+\<close> on floats. The sign of a zero is not kept: no comparison
  and no sum of the loop depends on it.
\<close>

datatype double = Finite real | Pos_inf | Neg_inf | NaN

fun dle :: "double \<Rightarrow> double \<Rightarrow> bool" where
  "dle (Finite x) (Finite y) = (x \<le> y)"
| "dle (Finite x) Pos_inf = True"
| "dle Neg_inf (Finite y) = True"
| "dle Neg_inf Neg_inf = True"
| "dle Neg_inf Pos_inf = True"
| "dle Pos_inf Pos_inf = True"
| "dle a b = False"

fun deq :: "double \<Rightarrow> double \<Rightarrow> bool" where
  "deq (Finite x) (Finite y) = (x = y)"
| "deq Pos_inf Pos_inf = True"
| "deq Neg_inf Neg_inf = True"
| "deq a b = False"

definition round_half_even :: "real \<Rightarrow> int" where
  "round_half_even q =
     (if q - of_int \<lfloor>q\<rfloor> < 1 / 2 then \<lfloor>q\<rfloor>
      else if 1 / 2 < q - of_int \<lfloor>q\<rfloor> then \<lfloor>q\<rfloor> + 1
      else if even \<lfloor>q\<rfloor> then \<lfloor>q\<rfloor> else \<lfloor>q\<rfloor> + 1)"

text \<open>The spacing of the doubles around a real number other than zero.\<close>

definition ulp :: "real \<Rightarrow> real" where
  "ulp r = 2 powr of_int (max \<lfloor>log 2 \<bar>r\<bar>\<rfloor> (- 1022) - 52)"

definition overflow_threshold :: real where
  "overflow_threshold = 2 ^ 1024"

definition round_double :: "real \<Rightarrow> double" where
  "round_double r =
     (if r = 0 then Finite 0
      else if overflow_threshold \<le> \<bar>of_int (round_half_even (r / ulp r)) * ulp r\<bar>
           then (if 0 < r then Pos_inf else Neg_inf)
           else Finite (of_int (round_half_even (r / ulp r)) * ulp r))"

fun dadd :: "double \<Rightarrow> double \<Rightarrow> double" where
  "dadd (Finite x) (Finite y) = round_double (x + y)"
| "dadd NaN b = NaN"
| "dadd a NaN = NaN"
| "dadd Pos_inf Neg_inf = NaN"
| "dadd Neg_inf Pos_inf = NaN"
| "dadd Pos_inf b = Pos_inf"
| "dadd a Pos_inf = Pos_inf"
| "dadd Neg_inf b = Neg_inf"
| "dadd a Neg_inf = Neg_inf"

subsection \<open>Calls made by the driver\<close>

text \<open>The nodal getters of the engine; a vector field is read one component at a time.\<close>

datatype getter = Get_m | Get_U3 nat | Get_f_int nat | Get_a3 nat

datatype call =
    Cpp_formulate_material_basis_functions
  | Cpp_interpolate_material_mass_to_grid
  | Cpp_interpolate_material_velocity_to_grid
  | Cpp_calculate_grid_volume
  | Cpp_calculate_material_density
  | Cpp_calculate_material_initial_volume
  | Cpp_calculate_material_velocity_gradient
  | Cpp_interpolate_grid_velocity_to_material
  | Cpp_initialize_material_tensors
  | Cpp_update_material_volume
  | Cpp_update_material_deformation_gradient
  | Cpp_update_material_stress
  | Cpp_calculate_grid_internal_forces
  | Cpp_update_grid_velocity
  | Cpp_calculate_grid_acceleration
  | Cpp_advect_material_particles
  | Assign_variable string getter
  | Update_mass string
  | Assign_u string
  | Assign_v string
  | Update_internal_force_vector "string list"
  | Update_acceleration "string list"
  | Store nat string string
  | Save_pvd string double
  | Print_item nat string nat

text \<open>
  \<open>Cpp_f\<close> is \<open>self.mpm_cpp.f()\<close>. \<open>Assign_variable n g\<close> is
  \<open>self.grid_model.assign_variable(n, self.mpm_cpp.g)\<close> for the local function named
  \<open>n\<close>. \<open>Assign_u\<close> and \<open>Assign_v\<close> are \<open>assu.assign\<close> and \<open>assv.assign\<close>.
  \<open>Store i a g\<close> is the assignment \<open>M.a = np.array(M.cpp_mat.g(...))\<close> for the
  \<open>i\<close>-th material, \<open>Save_pvd n t\<close> is \<open>self.grid_model.save_pvd\<close> of the field
  \<open>n\<close> with time stamp \<open>t\<close>, and \<open>Print_item i a p\<close> is
  \<open>print self.materials[i].a[p]\<close>.
\<close>

datatype error = Index_error | External_error call

text \<open>
  A model holds the constructor's arguments, the particle count of every material added
  so far, and the dimension flags handed to the engine's constructor.
\<close>

record 'g model =
  out_dir :: string
  grid_model :: 'g
  dt :: double
  materials :: "nat list"
  cpp_dims :: "int list"

definition Model_init :: "string \<Rightarrow> 'g \<Rightarrow> double \<Rightarrow> 'g model" where
  "Model_init od gm d =
     \<lparr>out_dir = od, grid_model = gm, dt = d, materials = [], cpp_dims = [1, 1, 0]\<rparr>"

definition add_material :: "'g model \<Rightarrow> nat \<Rightarrow> 'g model" where
  "add_material M n = M\<lparr>materials := materials M @ [n]\<rparr>"

text \<open>The loop \<open>for M in self.materials\<close>, its body given per material index.\<close>

definition for_materials :: "'g model \<Rightarrow> (nat \<Rightarrow> call list) \<Rightarrow> call list" where
  "for_materials M body = concat (map body [0..<length (materials M)])"

definition formulate_material_basis_functions :: "'g model \<Rightarrow> call list" where
  "formulate_material_basis_functions M =
     Cpp_formulate_material_basis_functions #
     for_materials M (\<lambda>i. [Store i ''vrt'' ''get_vrt'', Store i ''phi'' ''get_phi'',
                            Store i ''grad_phi'' ''get_grad_phi''])"

definition interpolate_material_mass_to_grid :: "'g model \<Rightarrow> call list" where
  "interpolate_material_mass_to_grid M =
     [Cpp_interpolate_material_mass_to_grid, Assign_variable ''m'' Get_m, Update_mass ''m'']"

definition interpolate_material_velocity_to_grid :: "'g model \<Rightarrow> call list" where
  "interpolate_material_velocity_to_grid M =
     [Cpp_interpolate_material_velocity_to_grid,
      Assign_variable ''u'' (Get_U3 0), Assign_variable ''v'' (Get_U3 1),
      Assign_u ''u'', Assign_v ''v'']"

definition calculate_material_density :: "'g model \<Rightarrow> call list" where
  "calculate_material_density M =
     [Cpp_calculate_grid_volume, Cpp_calculate_material_density] @
     for_materials M (\<lambda>i. [Store i ''rho'' ''get_rho''])"

definition calculate_material_initial_volume :: "'g model \<Rightarrow> call list" where
  "calculate_material_initial_volume M =
     Cpp_calculate_material_initial_volume #
     for_materials M (\<lambda>i. [Store i ''V0'' ''get_V'', Store i ''V'' ''get_V0''])"

definition calculate_material_velocity_gradient :: "'g model \<Rightarrow> call list" where
  "calculate_material_velocity_gradient M =
     Cpp_calculate_material_velocity_gradient #
     for_materials M (\<lambda>i. [Store i ''grad_u'' ''get_grad_u''])"

definition interpolate_grid_velocity_to_material :: "'g model \<Rightarrow> call list" where
  "interpolate_grid_velocity_to_material M =
     Cpp_interpolate_grid_velocity_to_material #
     for_materials M (\<lambda>i. [Store i ''u_star'' ''get_u_star''])"

definition interpolate_grid_acceleration_to_material :: "'g model \<Rightarrow> call list" where
  "interpolate_grid_acceleration_to_material M =
     for_materials M (\<lambda>i. [Store i ''a'' ''get_a''])"

definition initialize_material_tensors :: "'g model \<Rightarrow> call list" where
  "initialize_material_tensors M =
     calculate_material_velocity_gradient M @
     [Cpp_initialize_material_tensors] @
     for_materials M (\<lambda>i. [Store i ''dF'' ''get_dF'', Store i ''F'' ''get_F'',
                            Store i ''epsilon'' ''get_epsilon'',
                            Store i ''sigma'' ''get_sigma''])"

definition update_material_volume :: "'g model \<Rightarrow> call list" where
  "update_material_volume M =
     Cpp_update_material_volume # for_materials M (\<lambda>i. [Store i ''V'' ''get_V''])"

definition update_material_deformation_gradient :: "'g model \<Rightarrow> call list" where
  "update_material_deformation_gradient M =
     Cpp_update_material_deformation_gradient #
     for_materials M (\<lambda>i. [Store i ''dF'' ''get_dF'', Store i ''F'' ''get_F''])"

definition update_material_stress :: "'g model \<Rightarrow> call list" where
  "update_material_stress M =
     Cpp_update_material_stress #
     for_materials M (\<lambda>i. [Store i ''epsilon'' ''get_epsilon'',
                            Store i ''sigma'' ''get_sigma''])"

definition calculate_grid_internal_forces :: "'g model \<Rightarrow> call list" where
  "calculate_grid_internal_forces M =
     [Cpp_calculate_grid_internal_forces,
      Assign_variable ''f_int_x'' (Get_f_int 0), Assign_variable ''f_int_y'' (Get_f_int 1),
      Update_internal_force_vector [''f_int_x'', ''f_int_y'']]"

definition update_grid_velocity :: "'g model \<Rightarrow> call list" where
  "update_grid_velocity M =
     [Cpp_update_grid_velocity,
      Assign_variable ''u'' (Get_U3 0), Assign_variable ''v'' (Get_U3 1),
      Assign_u ''u'', Assign_v ''v'']"

definition calculate_grid_acceleration :: "'g model \<Rightarrow> call list" where
  "calculate_grid_acceleration M =
     [Cpp_calculate_grid_acceleration,
      Assign_variable ''a_x'' (Get_a3 0), Assign_variable ''a_y'' (Get_a3 1),
      Update_acceleration [''a_x'', ''a_y'']]"

definition advect_material_particles :: "'g model \<Rightarrow> call list" where
  "advect_material_particles M =
     interpolate_grid_velocity_to_material M @
     [Cpp_advect_material_particles] @
     for_materials M (\<lambda>i. [Store i ''u'' ''get_u'', Store i ''x'' ''get_x''])"

subsection \<open>One pass of the loop of \<open>mpm\<close>\<close>

text \<open>
  The four snapshots and the three diagnostic prints of the loop body, between the stress
  update and the advection.
\<close>

definition save_result :: "double \<Rightarrow> call list" where
  "save_result t =
     [Save_pvd ''m'' t, Save_pvd ''U3'' t, Save_pvd ''a3'' t, Save_pvd ''f_int'' t]"

definition print_diagnostics :: "call list" where
  "print_diagnostics =
     [Print_item 0 ''grad_u'' 100, Print_item 0 ''epsilon'' 100, Print_item 0 ''sigma'' 100]"

definition mpm_step :: "'g model \<Rightarrow> double \<Rightarrow> double \<Rightarrow> call list" where
  "mpm_step M t_start t =
     formulate_material_basis_functions M @
     interpolate_material_mass_to_grid M @
     interpolate_material_velocity_to_grid M @
     (if deq t t_start
      then initialize_material_tensors M @
           calculate_material_density M @
           calculate_material_initial_volume M
      else []) @
     calculate_grid_internal_forces M @
     calculate_grid_acceleration M @
     update_grid_velocity M @
     calculate_material_velocity_gradient M @
     update_material_deformation_gradient M @
     update_material_volume M @
     update_material_stress M @
     save_result t @
     print_diagnostics @
     advect_material_particles M"

subsection \<open>Running calls; the loop\<close>

text \<open>
  The engine and the grid model are external: whether one of their calls raises is given
  by an oracle that sees the calls completed so far. A diagnostic print raises
  \<open>IndexError\<close> exactly when the material or the particle it indexes does not exist.
\<close>

type_synonym failures = "call list \<Rightarrow> call \<Rightarrow> bool"

fun raises :: "failures \<Rightarrow> 'g model \<Rightarrow> call list \<Rightarrow> call \<Rightarrow> error option" where
  "raises orc M hist (Print_item i a p) =
     (if i < length (materials M) \<and> p < materials M ! i then None else Some Index_error)"
| "raises orc M hist c = (if orc hist c then Some (External_error c) else None)"

text \<open>
  No method of \<open>Model\<close> catches an exception: the first call that raises ends the run, and
  what the completed calls did stays in place.
\<close>

fun exec :: "failures \<Rightarrow> 'g model \<Rightarrow> call list \<Rightarrow> call list \<Rightarrow> call list \<times> error option" where
  "exec orc M [] hist = (hist, None)"
| "exec orc M (c # cs) hist =
     (case raises orc M hist c of
        Some e \<Rightarrow> (hist, Some e)
      | None \<Rightarrow> exec orc M cs (hist @ [c]))"

record outcome =
  calls :: "call list"
  time :: double
  raised :: "error option"

partial_function (option) mpm_loop ::
  "failures \<Rightarrow> 'g model \<Rightarrow> double \<Rightarrow> double \<Rightarrow> double \<Rightarrow> call list \<Rightarrow> outcome option"
  where
  "mpm_loop orc M t_start t_end t hist =
     (if dle t t_end
      then (case exec orc M (mpm_step M t_start t) hist of
              (hist', Some e) \<Rightarrow> Some \<lparr>calls = hist', time = t, raised = Some e\<rparr>
            | (hist', None) \<Rightarrow> mpm_loop orc M t_start t_end (dadd t (dt M)) hist')
      else Some \<lparr>calls = hist, time = t, raised = None\<rparr>)"

definition mpm :: "failures \<Rightarrow> 'g model \<Rightarrow> double \<Rightarrow> double \<Rightarrow> outcome option" where
  "mpm orc M t_start t_end = mpm_loop orc M t_start t_end t_start []"

subsection \<open>Vocabulary of the properties\<close>

text \<open>
  A run is free of errors when no external call raises and the diagnostic prints are in
  range, that is, when a first material exists and has more than 100 particles.
\<close>

definition error_free :: "failures \<Rightarrow> 'g model \<Rightarrow> bool" where
  "error_free orc M =
     ((\<forall>h c. \<not> orc h c) \<and> 0 < length (materials M) \<and> 100 < materials M ! 0)"

text \<open>
  The times of the passes as the loop computes them: \<open>t\<close>, then one rounded addition
  of the time step after each pass.
\<close>

fun loop_time :: "double \<Rightarrow> double \<Rightarrow> nat \<Rightarrow> double" where
  "loop_time t d 0 = t"
| "loop_time t d (Suc k) = dadd (loop_time t d k) d"

text \<open>
  The number of the real numbers \<open>t, t + d, t + 2 d, ...\<close> that do not exceed \<open>t_end\<close>.
\<close>

definition step_count :: "real \<Rightarrow> real \<Rightarrow> real \<Rightarrow> nat" where
  "step_count d t t_end = (if t \<le> t_end then nat \<lfloor>(t_end - t) / d\<rfloor> + 1 else 0)"

text \<open>
  \<open>precedes a b xs\<close>: both calls occur in \<open>xs\<close> and the first \<open>a\<close> comes before
  the first \<open>b\<close>.
\<close>

fun precedes :: "'a \<Rightarrow> 'a \<Rightarrow> 'a list \<Rightarrow> bool" where
  "precedes a b [] = False"
| "precedes a b (x # xs) =
     (if x = a then b \<in> set xs else if x = b then False else precedes a b xs)"




text \<open>
  The skeleton of a list of calls: what is left when the copies that follow an engine call
  (into a grid field or into an attribute of a material) are taken out, that is, the
  engine calls, the snapshots and the diagnostic prints.
\<close>

fun is_copy :: "call \<Rightarrow> bool" where
  "is_copy (Assign_variable n g) = True"
| "is_copy (Update_mass n) = True"
| "is_copy (Assign_u n) = True"
| "is_copy (Assign_v n) = True"
| "is_copy (Update_internal_force_vector ns) = True"
| "is_copy (Update_acceleration ns) = True"
| "is_copy (Store i a g) = True"
| "is_copy c = False"

definition skeleton :: "call list \<Rightarrow> call list" where
  "skeleton cs = filter (\<lambda>c. \<not> is_copy c) cs"

text \<open>The part of a pass that comes before the diagnostic prints.\<close>

definition stages_before_prints :: "'g model \<Rightarrow> double \<Rightarrow> double \<Rightarrow> call list" where
  "stages_before_prints M t_start t =
     formulate_material_basis_functions M @
     interpolate_material_mass_to_grid M @
     interpolate_material_velocity_to_grid M @
     (if deq t t_start
      then initialize_material_tensors M @
           calculate_material_density M @
           calculate_material_initial_volume M
      else []) @
     calculate_grid_internal_forces M @
     calculate_grid_acceleration M @
     update_grid_velocity M @
     calculate_material_velocity_gradient M @
     update_material_deformation_gradient M @
     update_material_volume M @
     update_material_stress M @
     save_result t"

text \<open>
  Concrete inputs: an oracle under which no external call raises; one under which the
  call made after \<open>N\<close> completed calls raises; a model with one
  material of 101 particles and time step 1; the same with time step 0; and two models
  whose only material has a single particle, with time step 1 and with time step 0.
\<close>

definition no_failures :: failures where
  "no_failures hist c = False"

definition fails_at_call :: "nat \<Rightarrow> failures" where
  "fails_at_call N hist c = (length hist = N)"

definition demo_model :: "unit model" where
  "demo_model = add_material (Model_init ''output'' () (Finite 1)) 101"


definition small_model :: "unit model" where
  "small_model = add_material (Model_init ''output'' () (Finite 1)) 1"


subsection \<open>Particle kinematics of the engine\<close>

text \<open>
  The model is built with the dimension flags \<open>[1, 1, 0]\<close>, so a particle tensor has
  the four entries \<open>(xx, xy, yx, yy)\<close>.
\<close>

type_synonym tensor = "real \<times> real \<times> real \<times> real"

fun det :: "tensor \<Rightarrow> real" where
  "det (a, b, c, d) = a * d - b * c"

fun hadamard :: "tensor \<Rightarrow> tensor \<Rightarrow> tensor" where
  "hadamard (a, b, c, d) (a', b', c', d') = (a * a', b * b', c * c', d * d')"

fun increment :: "real \<Rightarrow> tensor \<Rightarrow> tensor" where
  "increment h (a, b, c, d) = (1 + h * a, h * b, h * c, 1 + h * d)"

record particle =
  m :: real
  rho :: real
  V :: real
  V0 :: real
  grad_u :: tensor
  dF :: tensor
  F :: tensor

text \<open>
  Modelled from the spec: the engine routine \<open>calculate_material_initial_volume\<close> of the
  native module, which is not among the sources. The specification gives
  \<open>V_p = m_p / rho_p\<close> and then \<open>V0_p = V_p\<close>.
\<close>

definition cpp_calculate_material_initial_volume :: "particle \<Rightarrow> particle" where
  "cpp_calculate_material_initial_volume p = p\<lparr>V := m p / rho p, V0 := m p / rho p\<rparr>"

text \<open>
  Modelled from the spec: the engine routine \<open>initialize_material_tensors\<close> of the native
  module: \<open>dF_p = I + dt grad u_p\<close> and \<open>F_p = dF_p\<close>.
\<close>

definition cpp_initialize_material_tensors :: "real \<Rightarrow> particle \<Rightarrow> particle" where
  "cpp_initialize_material_tensors h p =
     p\<lparr>dF := increment h (grad_u p), F := increment h (grad_u p)\<rparr>"

text \<open>
  Modelled from the spec: the engine routine \<open>update_material_deformation_gradient\<close> of
  the native module: \<open>dF_p = I + dt grad u_p\<close>, and \<open>F_p\<close> becomes the element-wise
  (Hadamard) product of \<open>dF_p\<close> and the previous \<open>F_p\<close>.
\<close>

definition cpp_update_material_deformation_gradient :: "real \<Rightarrow> particle \<Rightarrow> particle" where
  "cpp_update_material_deformation_gradient h p =
     p\<lparr>dF := increment h (grad_u p), F := hadamard (increment h (grad_u p)) (F p)\<rparr>"

text \<open>
  Modelled from the spec: the engine routine \<open>update_material_volume\<close> of the native
  module: \<open>V_p\<close> becomes \<open>det (dF_p) V_p\<close>.
\<close>

definition cpp_update_material_volume :: "particle \<Rightarrow> particle" where
  "cpp_update_material_volume p = p\<lparr>V := det (dF p) * V p\<rparr>"

text \<open>
  The kinematic part of one pass of the loop for one particle: the velocity gradient
  \<open>g\<close> computed from the grid, then the deformation gradient, then the volume, in the
  order of \<open>mpm\<close>. The first pass is preceded by the initialisation, in the order of
  \<open>mpm\<close>: tensors from the initial velocity gradient \<open>g0\<close>, then the initial volume.
\<close>

definition kinematic_step :: "real \<Rightarrow> tensor \<Rightarrow> particle \<Rightarrow> particle" where
  "kinematic_step h g p =
     cpp_update_material_volume (cpp_update_material_deformation_gradient h (p\<lparr>grad_u := g\<rparr>))"

definition kinematic_init :: "real \<Rightarrow> tensor \<Rightarrow> particle \<Rightarrow> particle" where
  "kinematic_init h g0 p =
     cpp_calculate_material_initial_volume (cpp_initialize_material_tensors h (p\<lparr>grad_u := g0\<rparr>))"

definition kinematic_run :: "real \<Rightarrow> tensor \<Rightarrow> tensor list \<Rightarrow> particle \<Rightarrow> particle" where
  "kinematic_run h g0 gs p = foldl (\<lambda>q g. kinematic_step h g q) (kinematic_init h g0 p) gs"

text \<open>
  The data that \<open>calculate_material_initial_volume\<close> moves: the engine updates every
  particle of every material, then the method copies the engine's arrays into the
  attributes of each material, \<open>M.V0\<close> from \<open>get_V\<close> and \<open>M.V\<close> from \<open>get_V0\<close>.
\<close>

record material =
  cpp_mat :: "particle list"
  M_V :: "real list"
  M_V0 :: "real list"

definition get_V :: "particle list \<Rightarrow> real list" where
  "get_V ps = map V ps"

definition get_V0 :: "particle list \<Rightarrow> real list" where
  "get_V0 ps = map V0 ps"

definition calculate_material_initial_volume_arrays :: "material list \<Rightarrow> material list" where
  "calculate_material_initial_volume_arrays Ms =
     map (\<lambda>M. M\<lparr>M_V0 := get_V (cpp_mat M), M_V := get_V0 (cpp_mat M)\<rparr>)
         (map (\<lambda>M. M\<lparr>cpp_mat := map cpp_calculate_material_initial_volume (cpp_mat M)\<rparr>) Ms)"

definition unit_particle :: particle where
  "unit_particle =
     \<lparr>m = 1, rho = 1, V = 0, V0 = 0, grad_u = (0, 0, 0, 0), dF = (0, 0, 0, 0), F = (0, 0, 0, 0)\<rparr>"

definition demo_materials :: "material list" where
  "demo_materials = [\<lparr>cpp_mat = [unit_particle\<lparr>m := 6, rho := 3\<rparr>], M_V = [], M_V0 = []\<rparr>]"

section \<open>Properties of the floating-point time\<close>

lemma round_half_even_int [simp]: "round_half_even (of_int n) = n"
  by (simp add: round_half_even_def)



lemma ulp_eq:
  assumes "2 powr of_int e \<le> \<bar>r\<bar>" and "\<bar>r\<bar> < 2 powr of_int (e + 1)"
  shows "ulp r = 2 powr of_int (max e (- 1022) - 52)"
proof -
  have "0 < \<bar>r\<bar>" using assms(1) by (smt (verit) powr_gt_zero)
  then have "\<lfloor>log 2 \<bar>r\<bar>\<rfloor> = e"
    using assms by (subst floor_log_eq_powr_iff) (simp_all add: add.commute)
  then show ?thesis by (simp add: ulp_def)
qed

lemma ulp_pos: "0 < ulp r" by (simp add: ulp_def)

lemma log2_bounds:
  assumes "r \<noteq> 0"
  shows "2 powr of_int \<lfloor>log 2 \<bar>r\<bar>\<rfloor> \<le> \<bar>r\<bar>" and "\<bar>r\<bar> < 2 powr of_int (\<lfloor>log 2 \<bar>r\<bar>\<rfloor> + 1)"
proof -
  have "0 < \<bar>r\<bar>" using assms by simp
  from floor_log_eq_powr_iff[OF this, of 2 "\<lfloor>log 2 \<bar>r\<bar>\<rfloor>"]
  show "2 powr of_int \<lfloor>log 2 \<bar>r\<bar>\<rfloor> \<le> \<bar>r\<bar>" and "\<bar>r\<bar> < 2 powr of_int (\<lfloor>log 2 \<bar>r\<bar>\<rfloor> + 1)"
    by (simp_all add: add.commute)
qed


lemma ulp_nz [simp]: "ulp r \<noteq> 0" using ulp_pos[of r] by simp








lemma round_double_of_int:
  assumes "\<bar>n\<bar> < 2 ^ 53"
  shows "round_double (of_int n) = Finite (of_int n)"
proof (cases "n = 0")
  case True
  then show ?thesis by (simp add: round_double_def)
next
  case False
  define r where "r = real_of_int n"
  define e where "e = \<lfloor>log 2 \<bar>r\<bar>\<rfloor>"
  have r0: "r \<noteq> 0" using False by (simp add: r_def)
  have b: "2 powr of_int e \<le> \<bar>r\<bar>" "\<bar>r\<bar> < 2 powr of_int (e + 1)"
    using log2_bounds[OF r0] by (simp_all add: e_def)
  have "1 \<le> \<bar>n\<bar>" using False by linarith
  then have "1 \<le> \<bar>r\<bar>" unfolding r_def by (simp flip: of_int_abs)
  then have "0 \<le> log 2 \<bar>r\<bar>" by simp
  then have e0: "0 \<le> e" by (simp add: e_def)
  have lt53: "\<bar>r\<bar> < 2 ^ 53"
  proof -
    have "real_of_int \<bar>n\<bar> < real_of_int (2 ^ 53)" using assms by (simp only: of_int_less_iff)
    then show ?thesis unfolding r_def by simp
  qed
  have "(2::real) powr real_of_int 53 = 2 ^ 53" by simp
  with b(1) lt53 have "2 powr real_of_int e < (2::real) powr real_of_int 53" by linarith
  then have "real_of_int e < real_of_int 53"
    by (subst (asm) powr_less_cancel_iff) simp_all
  then have e52: "e \<le> 52" by linarith
  define k where "k = nat (52 - e)"
  have u: "ulp r = 2 powr of_int (e - 52)"
    using e0 by (simp add: ulp_def e_def max_def)
  have "2 powr of_int (e - 52) * 2 ^ k = (1::real)"
  proof -
    have "(2::real) ^ k = 2 powr of_int (52 - e)"
      using powr_real_of_int[of 2 "52 - e"] e52 by (simp add: k_def)
    then have "2 powr of_int (e - 52) * 2 ^ k = (2::real) powr (of_int (e - 52) + of_int (52 - e))"
      by (simp only: powr_add)
    then show ?thesis by simp
  qed
  then have inv: "1 / ulp r = 2 ^ k" unfolding u
    by (metis divide_divide_eq_left div_by_1 nonzero_mult_div_cancel_left ulp_nz u)
  have q: "r / ulp r = of_int (n * 2 ^ k)"
  proof -
    have "r / ulp r = r * (1 / ulp r)" by simp
    also have "\<dots> = r * 2 ^ k" by (simp only: inv)
    also have "\<dots> = of_int (n * 2 ^ k)" by (simp add: r_def)
    finally show ?thesis .
  qed
  have "real_of_int (round_half_even (r / ulp r)) = r / ulp r"
    unfolding q by (simp only: round_half_even_int)
  then have v: "of_int (round_half_even (r / ulp r)) * ulp r = r" by simp
  have "\<bar>r\<bar> < overflow_threshold"
  proof -
    note lt53
    also have "(2::real) ^ 53 \<le> 2 ^ 1024" by (rule power_increasing) simp_all
    finally show ?thesis by (simp only: overflow_threshold_def)
  qed
  then show ?thesis using r0 unfolding r_def[symmetric] by (simp add: round_double_def v)
qed

lemma dadd_exact_int:
  assumes "x + y = of_int n" and "\<bar>n\<bar> < 2 ^ 53"
  shows "dadd (Finite x) (Finite y) = Finite (x + y)"
  using round_double_of_int[OF assms(2)] assms(1) by simp

lemma dadd_absorbed:
  "dadd (Finite 10000000000000000) (Finite 1) = Finite 10000000000000000"
proof -
  have u: "ulp 10000000000000001 = 2"
  proof -
    have "ulp 10000000000000001 = 2 powr of_int (max 53 (- 1022) - 52)"
      by (rule ulp_eq) simp_all
    then show ?thesis by simp
  qed
  have f: "\<lfloor>10000000000000001 / (2::real)\<rfloor> = 5000000000000000"
    by (rule floor_unique) simp_all
  have h: "round_half_even (10000000000000001 / 2) = 5000000000000000"
    unfolding round_half_even_def f by simp
  have "(10000000000000000::real) < 2 ^ 1024"
  proof -
    have "(10000000000000000::real) < 2 ^ 64" by simp
    also have "(2::real) ^ 64 \<le> 2 ^ 1024" by (rule power_increasing) simp_all
    finally show ?thesis .
  qed
  then have o: "\<not> overflow_threshold \<le> 10000000000000000"
    by (simp only: overflow_threshold_def not_le)
  show ?thesis by (simp add: round_double_def u h o)
qed

lemma dadd_one_exact:
  assumes "k < 2 ^ 52"
  shows "dadd (Finite (real k)) (Finite 1) = Finite (real (Suc k))"
proof -
  have e: "real k + 1 = real_of_int (int k + 1)" by simp
  have "int k + 1 < 2 ^ 53" using assms by simp
  then have "\<bar>int k + 1\<bar> < 2 ^ 53" by simp
  from dadd_exact_int[OF e this] show ?thesis by (simp add: add.commute)
qed


lemma loop_time_shift: "loop_time (dadd t d) d k = loop_time t d (Suc k)"
  by (induction k) simp_all

lemma loop_time_stalled: "dadd t d = t \<Longrightarrow> loop_time t d k = t"
  by (induction k) simp_all

lemma loop_time_exact:
  assumes "\<forall>k<n. dadd (Finite (a + real k * d)) (Finite d) = Finite (a + real (Suc k) * d)"
    and "k \<le> n"
  shows "loop_time (Finite a) (Finite d) k = Finite (a + real k * d)"
  using assms(2)
proof (induction k)
  case 0
  show ?case by simp
next
  case (Suc k)
  then have "loop_time (Finite a) (Finite d) k = Finite (a + real k * d)" and "k < n"
    by simp_all
  moreover from assms(1) \<open>k < n\<close>
  have "dadd (Finite (a + real k * d)) (Finite d) = Finite (a + real (Suc k) * d)" by blast
  ultimately show ?case by (simp only: loop_time.simps)
qed


section \<open>Properties of the driver\<close>

subsection \<open>Auxiliary facts\<close>

lemmas stage_defs =
  formulate_material_basis_functions_def interpolate_material_mass_to_grid_def
  interpolate_material_velocity_to_grid_def calculate_material_density_def
  calculate_material_initial_volume_def calculate_material_velocity_gradient_def
  interpolate_grid_velocity_to_material_def initialize_material_tensors_def
  update_material_volume_def update_material_deformation_gradient_def
  update_material_stress_def calculate_grid_internal_forces_def update_grid_velocity_def
  calculate_grid_acceleration_def advect_material_particles_def save_result_def
  print_diagnostics_def

lemma in_for_materials:
  "c \<in> set (for_materials M body) \<longleftrightarrow> (\<exists>i < length (materials M). c \<in> set (body i))"
  by (auto simp: for_materials_def)

lemma exec_no_raise:
  "(\<And>c h. c \<in> set p \<Longrightarrow> raises orc M h c = None) \<Longrightarrow> exec orc M p hist = (hist @ p, None)"
  by (induction p arbitrary: hist) simp_all


lemma print_in_step:
  "Print_item i a p \<in> set (mpm_step M t_start t) \<Longrightarrow> i = 0 \<and> p = 100"
  by (auto simp: mpm_step_def stage_defs in_for_materials split: if_splits)

lemma raises_in_step:
  assumes "0 < length (materials M)" and "100 < materials M ! 0"
    and "c \<in> set (mpm_step M t_start t)" and "\<not> orc h c"
  shows "raises orc M h c = None"
proof (cases c)
  case (Print_item i a p)
  with assms(3) have "i = 0 \<and> p = 100" by (simp add: print_in_step)
  with assms(1,2) Print_item show ?thesis by simp
qed (use assms(4) in simp_all)

lemma error_free_step:
  assumes "error_free orc M" and "c \<in> set (mpm_step M t_start t)"
  shows "raises orc M h c = None"
proof (cases c)
  case (Print_item i a p)
  with assms(2) have "i = 0 \<and> p = 100" by (simp add: print_in_step)
  with assms(1) Print_item show ?thesis by (simp add: error_free_def)
qed (use assms(1) in \<open>simp_all add: error_free_def\<close>)

lemma error_free_demo: "error_free no_failures demo_model"
  by (simp add: error_free_def no_failures_def demo_model_def add_material_def Model_init_def)


lemma step_count_Suc:
  assumes "0 < d" and "t \<le> t_end"
  shows "step_count d t t_end = Suc (step_count d (t + d) t_end)"
proof (cases "t + d \<le> t_end")
  case True
  have "(t_end - t) / d = (t_end - (t + d)) / d + 1"
    using assms(1) by (simp add: field_simps)
  then have "\<lfloor>(t_end - t) / d\<rfloor> = \<lfloor>(t_end - (t + d)) / d\<rfloor> + 1" by simp
  moreover have "0 \<le> \<lfloor>(t_end - (t + d)) / d\<rfloor>" using True assms(1) by simp
  ultimately show ?thesis using True assms(2) by (simp add: step_count_def nat_add_distrib)
next
  case False
  then have "(t_end - t) / d < 1" using assms(1) by simp
  moreover have "0 \<le> (t_end - t) / d" using assms by simp
  ultimately have "\<lfloor>(t_end - t) / d\<rfloor> = 0" by linarith
  then show ?thesis using False assms(2) by (simp add: step_count_def)
qed

lemma step_count_iff:
  assumes "0 < d"
  shows "k < step_count d t t_end \<longleftrightarrow> t + real k * d \<le> t_end"
proof (cases "t \<le> t_end")
  case True
  have "0 \<le> \<lfloor>(t_end - t) / d\<rfloor>" using True assms by simp
  then have "k < step_count d t t_end \<longleftrightarrow> int k \<le> \<lfloor>(t_end - t) / d\<rfloor>"
    using True unfolding step_count_def by simp linarith
  also have "\<dots> \<longleftrightarrow> real k \<le> (t_end - t) / d" by (simp add: le_floor_iff)
  also have "\<dots> \<longleftrightarrow> t + real k * d \<le> t_end" using assms by (auto simp: field_simps)
  finally show ?thesis .
next
  case False
  have "0 \<le> real k * d" using assms by simp
  with False have "\<not> t + real k * d \<le> t_end" by linarith
  with False show ?thesis by (simp add: step_count_def)
qed

text \<open>
  As long as the passes run without error and their times do not exceed \<open>t_end\<close>, the
  loop goes from pass to pass.
\<close>

lemma mpm_loop_unroll:
  assumes "\<forall>k<n. dle (loop_time t (dt M) k) t_end \<and>
             exec orc M (mpm_step M t_start (loop_time t (dt M) k))
               (hist @ concat (map (\<lambda>i. mpm_step M t_start (loop_time t (dt M) i)) [0..<k])) =
             (hist @ concat (map (\<lambda>i. mpm_step M t_start (loop_time t (dt M) i)) [0..<Suc k]),
              None)"
  shows "mpm_loop orc M t_start t_end t hist =
         mpm_loop orc M t_start t_end (loop_time t (dt M) n)
           (hist @ concat (map (\<lambda>i. mpm_step M t_start (loop_time t (dt M) i)) [0..<n]))"
  using assms
proof (induction n)
  case 0
  show ?case by simp
next
  case (Suc n)
  from Suc.prems have "mpm_loop orc M t_start t_end t hist =
         mpm_loop orc M t_start t_end (loop_time t (dt M) n)
           (hist @ concat (map (\<lambda>i. mpm_step M t_start (loop_time t (dt M) i)) [0..<n]))"
    by (intro Suc.IH) simp
  also from Suc.prems have "\<dots> = mpm_loop orc M t_start t_end (loop_time t (dt M) (Suc n))
           (hist @ concat (map (\<lambda>i. mpm_step M t_start (loop_time t (dt M) i)) [0..<Suc n]))"
    by (subst mpm_loop.simps) simp
  finally show ?case .
qed

lemma exec_error_free:
  assumes "error_free orc M"
  shows "exec orc M (mpm_step M t_start t) hist = (hist @ mpm_step M t_start t, None)"
  by (rule exec_no_raise) (rule error_free_step[OF assms])

text \<open>
  Without error, the loop returns after \<open>n\<close> passes when the \<open>n\<close> first computed times
  do not exceed \<open>t_end\<close> and the next one does.
\<close>

lemma mpm_loop_passes:
  assumes "error_free orc M" and "\<forall>k<n. dle (loop_time t (dt M) k) t_end"
    and "\<not> dle (loop_time t (dt M) n) t_end"
  shows "mpm_loop orc M t_start t_end t hist =
           Some \<lparr>calls = hist @ concat (map (\<lambda>k. mpm_step M t_start (loop_time t (dt M) k)) [0..<n]),
                 time = loop_time t (dt M) n, raised = None\<rparr>"
proof -
  have "mpm_loop orc M t_start t_end t hist =
         mpm_loop orc M t_start t_end (loop_time t (dt M) n)
           (hist @ concat (map (\<lambda>i. mpm_step M t_start (loop_time t (dt M) i)) [0..<n]))"
    by (rule mpm_loop_unroll) (use assms(2) in \<open>simp add: exec_error_free[OF assms(1)]\<close>)
  also have "\<dots> = Some \<lparr>calls = hist @ concat (map (\<lambda>k. mpm_step M t_start (loop_time t (dt M) k)) [0..<n]),
                 time = loop_time t (dt M) n, raised = None\<rparr>"
    using assms(3) by (subst mpm_loop.simps) simp
  finally show ?thesis .
qed

text \<open>Without error, the loop never returns when no computed time exceeds \<open>t_end\<close>.\<close>

lemma mpm_loop_forever:
  assumes "error_free orc M" and "\<forall>k. dle (loop_time t (dt M) k) t_end"
  shows "mpm_loop orc M t_start t_end t hist = None"
proof (rule ccontr)
  assume "mpm_loop orc M t_start t_end t hist \<noteq> None"
  then obtain r where r: "mpm_loop orc M t_start t_end t hist = Some r" by blast
  have "error_free orc M \<longrightarrow> (\<exists>k. \<not> dle (loop_time t (dt M) k) t_end)"
  proof (rule mpm_loop.raw_induct
      [where P = "\<lambda>orc M t_start t_end t hist r.
                    error_free orc M \<longrightarrow> (\<exists>k. \<not> dle (loop_time t (dt M) k) t_end)", OF _ r])
    fix loop :: "failures \<Rightarrow> 'a model \<Rightarrow> double \<Rightarrow> double \<Rightarrow> double \<Rightarrow> call list \<Rightarrow> outcome option"
      and orc and M :: "'a model" and t_start t_end t hist r
    assume IH: "\<And>orc M t_start t_end t hist r. loop orc M t_start t_end t hist = Some r \<Longrightarrow>
                  error_free orc M \<longrightarrow> (\<exists>k. \<not> dle (loop_time t (dt M) k) t_end)"
      and body: "(if dle t t_end
           then case exec orc M (mpm_step M t_start t) hist of
                  (hist', None) \<Rightarrow> loop orc M t_start t_end (dadd t (dt M)) hist'
                | (hist', Some e) \<Rightarrow> Some \<lparr>calls = hist', time = t, raised = Some e\<rparr>
           else Some \<lparr>calls = hist, time = t, raised = None\<rparr>) = Some r"
    show "error_free orc M \<longrightarrow> (\<exists>k. \<not> dle (loop_time t (dt M) k) t_end)"
    proof
      assume ef: "error_free orc M"
      show "\<exists>k. \<not> dle (loop_time t (dt M) k) t_end"
      proof (cases "dle t t_end")
        case False
        then show ?thesis by (intro exI[of _ 0]) simp
      next
        case True
        with body exec_error_free[OF ef, of t_start t hist]
        have "loop orc M t_start t_end (dadd t (dt M)) (hist @ mpm_step M t_start t) = Some r"
          by simp
        from IH[OF this] ef obtain k where "\<not> dle (loop_time (dadd t (dt M)) (dt M) k) t_end"
          by blast
        then show ?thesis unfolding loop_time_shift by blast
      qed
    qed
  qed
  with assms show False by blast
qed

subsection \<open>Shape of every run\<close>



text \<open>What a pass consists of, the copies left out.\<close>

lemma skeleton_for_materials:
  "\<forall>i. list_all is_copy (body i) \<Longrightarrow> skeleton (for_materials M body) = []"
  by (auto simp: skeleton_def filter_empty_conv in_for_materials list_all_iff)

lemma skeleton_append: "skeleton (xs @ ys) = skeleton xs @ skeleton ys"
  by (simp add: skeleton_def)

lemma skeleton_Cons: "skeleton (c # cs) = (if is_copy c then skeleton cs else c # skeleton cs)"
  by (simp add: skeleton_def)

lemma skeleton_Nil: "skeleton [] = []"
  by (simp add: skeleton_def)

lemma skeleton_mpm_step:
  "skeleton (mpm_step M t_start t) =
           [Cpp_formulate_material_basis_functions,
            Cpp_interpolate_material_mass_to_grid,
            Cpp_interpolate_material_velocity_to_grid] @
           (if deq t t_start
            then [Cpp_calculate_material_velocity_gradient, Cpp_initialize_material_tensors,
                  Cpp_calculate_grid_volume, Cpp_calculate_material_density,
                  Cpp_calculate_material_initial_volume]
            else []) @
           [Cpp_calculate_grid_internal_forces, Cpp_calculate_grid_acceleration,
            Cpp_update_grid_velocity, Cpp_calculate_material_velocity_gradient,
            Cpp_update_material_deformation_gradient, Cpp_update_material_volume,
            Cpp_update_material_stress,
            Save_pvd ''m'' t, Save_pvd ''U3'' t, Save_pvd ''a3'' t, Save_pvd ''f_int'' t,
            Print_item 0 ''grad_u'' 100, Print_item 0 ''epsilon'' 100,
            Print_item 0 ''sigma'' 100,
            Cpp_interpolate_grid_velocity_to_material, Cpp_advect_material_particles]"
  by (simp add: mpm_step_def stage_defs skeleton_append skeleton_Cons skeleton_Nil
      skeleton_for_materials)

subsection \<open>Runs that end with an error\<close>

lemma exec_clean:
  "\<forall>i<length p. raises orc M (hist @ take i p) (p ! i) = None \<Longrightarrow>
   exec orc M p hist = (hist @ p, None)"
proof (induction p arbitrary: hist)
  case Nil
  show ?case by simp
next
  case (Cons c cs)
  from Cons.prems have c: "raises orc M hist c = None" by fastforce
  have "\<forall>i<length cs. raises orc M ((hist @ [c]) @ take i cs) (cs ! i) = None"
  proof (intro allI impI)
    fix i assume "i < length cs"
    with Cons.prems have "raises orc M (hist @ take (Suc i) (c # cs)) ((c # cs) ! Suc i) = None"
      by (metis Suc_less_eq length_Cons)
    then show "raises orc M ((hist @ [c]) @ take i cs) (cs ! i) = None" by simp
  qed
  from Cons.IH[OF this] c show ?case by simp
qed

lemma exec_raises_at:
  assumes "j < length p"
    and "\<forall>i<j. raises orc M (hist @ take i p) (p ! i) = None"
    and "raises orc M (hist @ take j p) (p ! j) = Some e"
  shows "exec orc M p hist = (hist @ take j p, Some e)"
  using assms
proof (induction p arbitrary: hist j)
  case Nil
  then show ?case by simp
next
  case (Cons c cs)
  show ?case
  proof (cases j)
    case 0
    with Cons.prems(3) show ?thesis by simp
  next
    case (Suc j')
    with Cons.prems(2) have c: "raises orc M hist c = None" by fastforce
    have 1: "j' < length cs" using Cons.prems(1) Suc by simp
    have 2: "\<forall>i<j'. raises orc M ((hist @ [c]) @ take i cs) (cs ! i) = None"
    proof (intro allI impI)
      fix i assume "i < j'"
      with Cons.prems(2) Suc
      have "raises orc M (hist @ take (Suc i) (c # cs)) ((c # cs) ! Suc i) = None"
        by (metis Suc_less_eq)
      then show "raises orc M ((hist @ [c]) @ take i cs) (cs ! i) = None" by simp
    qed
    have 3: "raises orc M ((hist @ [c]) @ take j' cs) (cs ! j') = Some e"
      using Cons.prems(3) Suc by simp
    from Cons.IH[OF 1 2 3] c Suc show ?thesis by simp
  qed
qed

text \<open>
  The forward direction: when the passes \<open>0, ..., n - 1\<close> are entered and none of their
  calls raises, pass \<open>n\<close> is entered, and its call number \<open>j\<close> is the first of it to
  raise, then the run ends there with that error.
\<close>

lemma mpm_raise_forward:
  assumes enter: "\<forall>k\<le>n. dle (loop_time t_start (dt M) k) t_end"
    and clean: "\<forall>k<n. \<forall>i<length (mpm_step M t_start (loop_time t_start (dt M) k)).
        raises orc M
          (concat (map (\<lambda>k. mpm_step M t_start (loop_time t_start (dt M) k)) [0..<k]) @
           take i (mpm_step M t_start (loop_time t_start (dt M) k)))
          (mpm_step M t_start (loop_time t_start (dt M) k) ! i) = None"
    and j: "j < length (mpm_step M t_start (loop_time t_start (dt M) n))"
    and before: "\<forall>i<j.
        raises orc M
          (concat (map (\<lambda>k. mpm_step M t_start (loop_time t_start (dt M) k)) [0..<n]) @
           take i (mpm_step M t_start (loop_time t_start (dt M) n)))
          (mpm_step M t_start (loop_time t_start (dt M) n) ! i) = None"
    and fail: "raises orc M
          (concat (map (\<lambda>k. mpm_step M t_start (loop_time t_start (dt M) k)) [0..<n]) @
           take j (mpm_step M t_start (loop_time t_start (dt M) n)))
          (mpm_step M t_start (loop_time t_start (dt M) n) ! j) = Some e"
  shows "mpm orc M t_start t_end =
           Some \<lparr>calls = concat (map (\<lambda>k. mpm_step M t_start (loop_time t_start (dt M) k)) [0..<n])
                          @ take j (mpm_step M t_start (loop_time t_start (dt M) n)),
                 time = loop_time t_start (dt M) n, raised = Some e\<rparr>"
proof -
  let ?P = "\<lambda>k. mpm_step M t_start (loop_time t_start (dt M) k)"
  let ?H = "\<lambda>k. concat (map ?P [0..<k])"
  have step: "exec orc M (?P k) (?H k) = (?H (Suc k), None)" if "k < n" for k
  proof -
    from clean that have "\<forall>i<length (?P k). raises orc M (?H k @ take i (?P k)) (?P k ! i) = None"
      by blast
    from exec_clean[OF this] show ?thesis by simp
  qed
  have "mpm_loop orc M t_start t_end t_start [] =
          mpm_loop orc M t_start t_end (loop_time t_start (dt M) n) ([] @ ?H n)"
    by (rule mpm_loop_unroll) (use enter step in simp)
  also have "\<dots> = Some \<lparr>calls = ?H n @ take j (?P n), time = loop_time t_start (dt M) n,
                         raised = Some e\<rparr>"
    using enter exec_raises_at[OF j before fail] by (subst mpm_loop.simps) simp
  finally show ?thesis by (simp only: mpm_def)
qed

lemma length_concat_upt_mono:
  "k \<le> n \<Longrightarrow> length (concat (map f [0..<k])) \<le> length (concat (map f [0..<n]))"
  by (induction n) (auto simp: le_Suc_eq)

text \<open>
  The same for the oracle under which the call made after \<open>N\<close> completed calls raises,
  in a model whose diagnostic prints are in range.
\<close>

lemma fails_at_call_quiet:
  assumes "0 < length (materials M)" "100 < materials M ! 0"
    and "i < length (mpm_step M t_start t)" and "length h \<noteq> N"
  shows "raises (fails_at_call N) M h (mpm_step M t_start t ! i) = None"
proof (rule raises_in_step[OF assms(1,2)])
  show "mpm_step M t_start t ! i \<in> set (mpm_step M t_start t)" using assms(3) by simp
  show "\<not> fails_at_call N h (mpm_step M t_start t ! i)"
    using assms(4) by (simp add: fails_at_call_def)
qed

lemma fails_at_call_clean:
  assumes prints: "0 < length (materials M)" "100 < materials M ! 0"
    and N: "N = length (concat (map (\<lambda>k. mpm_step M t_start (loop_time t_start (dt M) k))
                                   [0..<n])) + j"
  shows "\<forall>k<n. \<forall>i<length (mpm_step M t_start (loop_time t_start (dt M) k)).
        raises (fails_at_call N) M
          (concat (map (\<lambda>k. mpm_step M t_start (loop_time t_start (dt M) k)) [0..<k]) @
           take i (mpm_step M t_start (loop_time t_start (dt M) k)))
          (mpm_step M t_start (loop_time t_start (dt M) k) ! i) = None"
proof (intro allI impI)
  let ?P = "\<lambda>k. mpm_step M t_start (loop_time t_start (dt M) k)"
  let ?H = "\<lambda>k. concat (map ?P [0..<k])"
  fix k i assume k: "k < n" and i: "i < length (?P k)"
  have "length (?H k) + length (?P k) = length (?H (Suc k))" by simp
  also have "\<dots> \<le> length (?H n)" using k by (intro length_concat_upt_mono) simp
  finally have "length (?H k @ take i (?P k)) \<noteq> N" using i N by simp
  with prints i show "raises (fails_at_call N) M (?H k @ take i (?P k)) (?P k ! i) = None"
    by (rule fails_at_call_quiet)
qed

lemma fails_at_call_before:
  assumes prints: "0 < length (materials M)" "100 < materials M ! 0"
    and N: "N = length (concat (map (\<lambda>k. mpm_step M t_start (loop_time t_start (dt M) k))
                                   [0..<n])) + j"
    and j: "j < length (mpm_step M t_start (loop_time t_start (dt M) n))"
  shows "\<forall>i<j.
        raises (fails_at_call N) M
          (concat (map (\<lambda>k. mpm_step M t_start (loop_time t_start (dt M) k)) [0..<n]) @
           take i (mpm_step M t_start (loop_time t_start (dt M) n)))
          (mpm_step M t_start (loop_time t_start (dt M) n) ! i) = None"
proof (intro allI impI)
  let ?P = "\<lambda>k. mpm_step M t_start (loop_time t_start (dt M) k)"
  let ?H = "\<lambda>k. concat (map ?P [0..<k])"
  fix i assume i: "i < j"
  with j have "i < length (?P n)" and "length (?H n @ take i (?P n)) \<noteq> N"
    using N by simp_all
  with prints show "raises (fails_at_call N) M (?H n @ take i (?P n)) (?P n ! i) = None"
    by (rule fails_at_call_quiet)
qed

lemma fails_at_call_fail:
  assumes N: "N = length (concat (map (\<lambda>k. mpm_step M t_start (loop_time t_start (dt M) k))
                                   [0..<n])) + j"
    and j: "j < length (mpm_step M t_start (loop_time t_start (dt M) n))"
    and np: "\<And>p a q. mpm_step M t_start (loop_time t_start (dt M) n) ! j \<noteq> Print_item p a q"
  shows "raises (fails_at_call N) M
          (concat (map (\<lambda>k. mpm_step M t_start (loop_time t_start (dt M) k)) [0..<n]) @
           take j (mpm_step M t_start (loop_time t_start (dt M) n)))
          (mpm_step M t_start (loop_time t_start (dt M) n) ! j) =
         Some (External_error (mpm_step M t_start (loop_time t_start (dt M) n) ! j))"
proof -
  let ?P = "\<lambda>k. mpm_step M t_start (loop_time t_start (dt M) k)"
  let ?H = "\<lambda>k. concat (map ?P [0..<k])"
  have "length (?H n @ take j (?P n)) = N" using j N by simp
  then have "fails_at_call N (?H n @ take j (?P n)) (?P n ! j)"
    by (simp add: fails_at_call_def)
  moreover have "\<forall>p a q. ?P n ! j \<noteq> Print_item p a q" using np by blast
  ultimately show ?thesis by (cases "?P n ! j") simp_all
qed

lemma fails_at_call_run:
  assumes prints: "0 < length (materials M)" "100 < materials M ! 0"
    and enter: "\<forall>k\<le>n. dle (loop_time t_start (dt M) k) t_end"
    and N: "N = length (concat (map (\<lambda>k. mpm_step M t_start (loop_time t_start (dt M) k))
                                   [0..<n])) + j"
    and j: "j < length (mpm_step M t_start (loop_time t_start (dt M) n))"
    and np: "\<And>p a q. mpm_step M t_start (loop_time t_start (dt M) n) ! j \<noteq> Print_item p a q"
  shows "mpm (fails_at_call N) M t_start t_end =
           Some \<lparr>calls = concat (map (\<lambda>k. mpm_step M t_start (loop_time t_start (dt M) k)) [0..<n])
                          @ take j (mpm_step M t_start (loop_time t_start (dt M) n)),
                 time = loop_time t_start (dt M) n,
                 raised = Some (External_error
                                  (mpm_step M t_start (loop_time t_start (dt M) n) ! j))\<rparr>"
  by (rule mpm_raise_forward[OF enter fails_at_call_clean[OF prints N] j
        fails_at_call_before[OF prints N j] fails_at_call_fail[OF N j np]])

lemma prints_in_range_demo:
  "0 < length (materials demo_model)" "100 < materials demo_model ! 0"
  by (simp_all add: demo_model_def add_material_def Model_init_def)

lemma mpm_step_split:
  "mpm_step M t_start t =
     stages_before_prints M t_start t @ print_diagnostics @ advect_material_particles M"
  by (simp add: mpm_step_def stages_before_prints_def)

lemma advection_calls_fresh:
  "c \<in> set (advect_material_particles M) \<Longrightarrow>
   c \<notin> set (stages_before_prints M t_start t @ print_diagnostics)"
  by (auto simp: stages_before_prints_def stage_defs in_for_materials split: if_splits)

lemma exec_append_no_raise:
  "(\<And>c h. c \<in> set p \<Longrightarrow> raises orc M h c = None) \<Longrightarrow>
   exec orc M (p @ q) hist = exec orc M q (hist @ p)"
  by (induction p arbitrary: hist) simp_all

lemma no_print_before_prints:
  "Print_item i a p \<notin> set (stages_before_prints M t_start t)"
  by (auto simp: stages_before_prints_def stage_defs in_for_materials split: if_splits)

lemma stages_before_prints_no_raise:
  assumes "c \<in> set (stages_before_prints M t_start t)"
  shows "raises no_failures M h c = None"
proof (cases c)
  case (Print_item i a p)
  with assms show ?thesis by (simp add: no_print_before_prints)
qed (simp_all add: no_failures_def)

lemma advection_not_reached:
  assumes jS: "j < length (mpm_step M t_start t)"
    and out: "mpm_step M t_start t ! j \<notin> set (advect_material_particles M)"
  shows "set (take j (mpm_step M t_start t)) \<inter> set (advect_material_particles M) = {}"
proof -
  let ?S = "mpm_step M t_start t"
  let ?A = "advect_material_particles M"
  define pre where "pre = stages_before_prints M t_start t @ print_diagnostics"
  have S: "?S = pre @ ?A" by (simp add: mpm_step_split pre_def)
  have fresh: "set pre \<inter> set ?A = {}"
    unfolding pre_def using advection_calls_fresh[of _ M t_start t] by blast
  have "j < length pre"
  proof (rule ccontr)
    assume n: "\<not> j < length pre"
    then have "?S ! j = ?A ! (j - length pre)"
      unfolding S by (simp only: nth_append if_False)
    moreover have "j - length pre < length ?A"
      using jS n unfolding S by simp
    ultimately show False using out by (metis nth_mem)
  qed
  then have "take j ?S = take j pre" unfolding S by simp
  then have "set (take j ?S) \<subseteq> set pre" by (simp add: set_take_subset)
  then show ?thesis using fresh by blast
qed


text \<open>
  When the first material is missing or has fewer than 101 particles, a run that enters
  its first pass gets as far as the snapshots, and the first diagnostic print raises
  \<open>IndexError\<close>.
\<close>

lemma index_error_run:
  assumes "\<not> (0 < length (materials M) \<and> 100 < materials M ! 0)" and "dle t_start t_end"
  shows "mpm no_failures M t_start t_end =
     Some \<lparr>calls = stages_before_prints M t_start t_start, time = t_start,
           raised = Some Index_error\<rparr>"
proof -
  have "exec no_failures M (mpm_step M t_start t_start) [] =
          exec no_failures M (print_diagnostics @ advect_material_particles M)
            ([] @ stages_before_prints M t_start t_start)"
    unfolding mpm_step_split
    by (rule exec_append_no_raise) (rule stages_before_prints_no_raise)
  also have "\<dots> = (stages_before_prints M t_start t_start, Some Index_error)"
  proof -
    have "raises no_failures M h (Print_item 0 ''grad_u'' 100) = Some Index_error" for h
      using assms(1) by auto
    then show ?thesis by (simp add: print_diagnostics_def)
  qed
  finally show ?thesis
    unfolding mpm_def using assms(2) by (subst mpm_loop.simps) simp
qed

lemma small_model_run:
  "dle (Finite 0) t_end \<Longrightarrow>
   mpm no_failures small_model (Finite 0) t_end =
     Some \<lparr>calls = stages_before_prints small_model (Finite 0) (Finite 0), time = Finite 0,
           raised = Some Index_error\<rparr>"
  by (rule index_error_run) (simp_all add: small_model_def add_material_def Model_init_def)

subsection \<open>The stepping loop\<close>

lemma dt_demo: "dt demo_model = Finite 1"
  by (simp add: demo_model_def add_material_def Model_init_def)


lemma absorbed_run_never_returns:
  assumes "dle (Finite 10000000000000000) t_end"
  shows "mpm no_failures demo_model (Finite 10000000000000000) t_end = None"
proof -
  have "dadd (Finite 10000000000000000) (dt demo_model) = Finite 10000000000000000"
    unfolding dt_demo by (rule dadd_absorbed)
  then have "loop_time (Finite 10000000000000000) (dt demo_model) k = Finite 10000000000000000"
    for k by (rule loop_time_stalled)
  with assms have "\<forall>k. dle (loop_time (Finite 10000000000000000) (dt demo_model) k) t_end"
    by simp
  with error_free_demo show ?thesis unfolding mpm_def by (rule mpm_loop_forever)
qed

lemma exact_run:
  assumes d: "dt M = Finite d" "0 < d" and ef: "error_free orc M"
    and ex: "\<forall>k<step_count d a b.
               dadd (Finite (a + real k * d)) (Finite d) = Finite (a + real (Suc k) * d)"
  shows "mpm orc M (Finite a) (Finite b) =
           Some \<lparr>calls = concat (map (\<lambda>k. mpm_step M (Finite a) (Finite (a + real k * d)))
                                    [0..<step_count d a b]),
                 time = Finite (a + real (step_count d a b) * d),
                 raised = None\<rparr>"
proof -
  let ?n = "step_count d a b"
  have T: "loop_time (Finite a) (dt M) k = Finite (a + real k * d)" if "k \<le> ?n" for k
    unfolding d(1) using ex that by (rule loop_time_exact)
  have le: "\<forall>k<?n. dle (loop_time (Finite a) (dt M) k) (Finite b)"
  proof (intro allI impI)
    fix k assume k: "k < ?n"
    then have "a + real k * d \<le> b" using step_count_iff[OF d(2), of k a b] by simp
    with T[of k] k show "dle (loop_time (Finite a) (dt M) k) (Finite b)" by simp
  qed
  have gt: "\<not> dle (loop_time (Finite a) (dt M) ?n) (Finite b)"
    using T[of ?n] step_count_iff[OF d(2), of ?n a b] by simp
  have m: "map (\<lambda>k. mpm_step M (Finite a) (loop_time (Finite a) (dt M) k)) [0..<?n] =
           map (\<lambda>k. mpm_step M (Finite a) (Finite (a + real k * d))) [0..<?n]"
    by (rule map_cong) (simp_all add: T)
  from mpm_loop_passes[OF ef le gt, of "Finite a" "[]"] show ?thesis
    unfolding mpm_def m T[OF order_refl] by simp
qed

text \<open>
  C7, as stated, fails on two runs with time step 1. From \<open>1e16\<close> to \<open>1e16 + 2\<close> the sum
  \<open>1e16 + 1\<close> is rounded back to \<open>1e16\<close>, the time never moves and the loop never
  returns, although the time step is positive. From 0 to 2, in the model whose only
  material has one particle, the first diagnostic print of the first pass raises
  \<open>IndexError\<close>: the run ends at time 0 and has executed no full pass, the advection
  not being reached.
\<close>

theorem absorbed_step_counterexample:
  "dt demo_model = Finite 1 \<and>
   dadd (Finite 10000000000000000) (Finite 1) = Finite 10000000000000000 \<and>
   mpm no_failures demo_model (Finite 10000000000000000) (Finite 10000000000000002) = None \<and>
   dt small_model = Finite 1 \<and>
   mpm no_failures small_model (Finite 0) (Finite 2) =
     Some \<lparr>calls = stages_before_prints small_model (Finite 0) (Finite 0), time = Finite 0,
           raised = Some Index_error\<rparr> \<and>
   Cpp_advect_material_particles \<notin> set (stages_before_prints small_model (Finite 0) (Finite 0))"
proof -
  have 1: "mpm no_failures demo_model (Finite 10000000000000000) (Finite 10000000000000002)
             = None"
    by (rule absorbed_run_never_returns) simp
  have 2: "dt small_model = Finite 1"
    by (simp add: small_model_def add_material_def Model_init_def)
  have 3: "mpm no_failures small_model (Finite 0) (Finite 2) =
     Some \<lparr>calls = stages_before_prints small_model (Finite 0) (Finite 0), time = Finite 0,
           raised = Some Index_error\<rparr>"
    by (rule small_model_run) simp
  have 4: "Cpp_advect_material_particles
             \<notin> set (stages_before_prints small_model (Finite 0) (Finite 0))"
    by (simp add: stages_before_prints_def stage_defs in_for_materials)
  from dt_demo dadd_absorbed 1 2 3 4 show ?thesis by (simp only: simp_thms)
qed

text \<open>
  C7, amended. In a run in which no call raises (so the first material has more than 100
  particles), the loop executes one complete pass for each time value it computes,
  \<open>t_start\<close>, then \<open>t + dt\<close> rounded to a double after each pass, as long as
  \<open>t <= t_end\<close> holds, and returns with the first computed value for which it does not
  hold, if there is one. For finite \<open>t_start\<close>, \<open>t_end\<close> and a finite time step greater
  than zero, when every sum \<open>t + dt\<close> that the loop forms is exact, these values are
  \<open>t_start + k dt\<close> for \<open>k = 0, 1, ...\<close>: there is one pass for each of them that does
  not exceed \<open>t_end\<close>, in this order, and the run returns with the first that exceeds
  \<open>t_end\<close>; if \<open>t_start \<le> t_end\<close> at least one pass is executed. A complete pass is,
  the copies into grid fields and materials aside: basis functions, mass and velocity to
  the grid; on a pass with \<open>t == t_start\<close> the initialisation block; grid internal
  forces, acceleration and velocity; velocity gradient, deformation gradient, volume and
  stress of the particles; the four snapshots; the three diagnostic prints; grid
  velocity to the particles and the advection.
\<close>

theorem mpm_steps_until_t_end:
  assumes "error_free orc M"
  shows "(\<forall>n. (\<forall>k<n. dle (loop_time t_start (dt M) k) t_end) \<and>
              \<not> dle (loop_time t_start (dt M) n) t_end \<longrightarrow>
            mpm orc M t_start t_end =
              Some \<lparr>calls = concat (map (\<lambda>k. mpm_step M t_start (loop_time t_start (dt M) k))
                                       [0..<n]),
                    time = loop_time t_start (dt M) n, raised = None\<rparr>)
       \<and> (t_start = Finite a \<and> t_end = Finite b \<and> dt M = Finite d \<and> 0 < d \<and>
           (\<forall>k<step_count d a b.
              dadd (Finite (a + real k * d)) (Finite d) = Finite (a + real (Suc k) * d)) \<longrightarrow>
           mpm orc M t_start t_end =
             Some \<lparr>calls = concat (map (\<lambda>k. mpm_step M t_start (Finite (a + real k * d)))
                                      [0..<step_count d a b]),
                   time = Finite (a + real (step_count d a b) * d),
                   raised = None\<rparr>
           \<and> (\<forall>k. k < step_count d a b \<longleftrightarrow> a + real k * d \<le> b)
           \<and> b < a + real (step_count d a b) * d
           \<and> (a \<le> b \<longrightarrow> 1 \<le> step_count d a b))
       \<and> (\<forall>t. skeleton (mpm_step M t_start t) =
           [Cpp_formulate_material_basis_functions,
            Cpp_interpolate_material_mass_to_grid,
            Cpp_interpolate_material_velocity_to_grid] @
           (if deq t t_start
            then [Cpp_calculate_material_velocity_gradient, Cpp_initialize_material_tensors,
                  Cpp_calculate_grid_volume, Cpp_calculate_material_density,
                  Cpp_calculate_material_initial_volume]
            else []) @
           [Cpp_calculate_grid_internal_forces, Cpp_calculate_grid_acceleration,
            Cpp_update_grid_velocity, Cpp_calculate_material_velocity_gradient,
            Cpp_update_material_deformation_gradient, Cpp_update_material_volume,
            Cpp_update_material_stress,
            Save_pvd ''m'' t, Save_pvd ''U3'' t, Save_pvd ''a3'' t, Save_pvd ''f_int'' t,
            Print_item 0 ''grad_u'' 100, Print_item 0 ''epsilon'' 100,
            Print_item 0 ''sigma'' 100,
            Cpp_interpolate_grid_velocity_to_material, Cpp_advect_material_particles])"
proof -
  have G: "(\<forall>n. (\<forall>k<n. dle (loop_time t_start (dt M) k) t_end) \<and>
              \<not> dle (loop_time t_start (dt M) n) t_end \<longrightarrow>
            mpm orc M t_start t_end =
              Some \<lparr>calls = concat (map (\<lambda>k. mpm_step M t_start (loop_time t_start (dt M) k))
                                       [0..<n]),
                    time = loop_time t_start (dt M) n, raised = None\<rparr>)"
    using mpm_loop_passes[OF assms, of _ t_start t_end t_start "[]"]
    by (simp add: mpm_def)
  have E: "(t_start = Finite a \<and> t_end = Finite b \<and> dt M = Finite d \<and> 0 < d \<and>
           (\<forall>k<step_count d a b.
              dadd (Finite (a + real k * d)) (Finite d) = Finite (a + real (Suc k) * d)) \<longrightarrow>
           mpm orc M t_start t_end =
             Some \<lparr>calls = concat (map (\<lambda>k. mpm_step M t_start (Finite (a + real k * d)))
                                      [0..<step_count d a b]),
                   time = Finite (a + real (step_count d a b) * d),
                   raised = None\<rparr>
           \<and> (\<forall>k. k < step_count d a b \<longleftrightarrow> a + real k * d \<le> b)
           \<and> b < a + real (step_count d a b) * d
           \<and> (a \<le> b \<longrightarrow> 1 \<le> step_count d a b))"
  proof (intro impI)
    assume h: "t_start = Finite a \<and> t_end = Finite b \<and> dt M = Finite d \<and> 0 < d \<and>
           (\<forall>k<step_count d a b.
              dadd (Finite (a + real k * d)) (Finite d) = Finite (a + real (Suc k) * d))"
    then have d: "dt M = Finite d" "0 < d"
      and ex: "\<forall>k<step_count d a b.
              dadd (Finite (a + real k * d)) (Finite d) = Finite (a + real (Suc k) * d)"
      by blast+
    have 1: "\<forall>k. k < step_count d a b \<longleftrightarrow> a + real k * d \<le> b"
      using step_count_iff[OF d(2)] by blast
    have 2: "b < a + real (step_count d a b) * d"
      using step_count_iff[OF d(2), of "step_count d a b" a b] by simp
    have 3: "a \<le> b \<longrightarrow> 1 \<le> step_count d a b"
      by (simp add: step_count_def)
    from exact_run[OF d assms ex] h
    have 0: "mpm orc M t_start t_end =
             Some \<lparr>calls = concat (map (\<lambda>k. mpm_step M t_start (Finite (a + real k * d)))
                                      [0..<step_count d a b]),
                   time = Finite (a + real (step_count d a b) * d),
                   raised = None\<rparr>"
      by simp
    from 0 1 2 3 show "mpm orc M t_start t_end =
             Some \<lparr>calls = concat (map (\<lambda>k. mpm_step M t_start (Finite (a + real k * d)))
                                      [0..<step_count d a b]),
                   time = Finite (a + real (step_count d a b) * d),
                   raised = None\<rparr>
           \<and> (\<forall>k. k < step_count d a b \<longleftrightarrow> a + real k * d \<le> b)
           \<and> b < a + real (step_count d a b) * d
           \<and> (a \<le> b \<longrightarrow> 1 \<le> step_count d a b)"
      by (simp only: simp_thms)
  qed
  have D: "\<forall>t. skeleton (mpm_step M t_start t) =
           [Cpp_formulate_material_basis_functions,
            Cpp_interpolate_material_mass_to_grid,
            Cpp_interpolate_material_velocity_to_grid] @
           (if deq t t_start
            then [Cpp_calculate_material_velocity_gradient, Cpp_initialize_material_tensors,
                  Cpp_calculate_grid_volume, Cpp_calculate_material_density,
                  Cpp_calculate_material_initial_volume]
            else []) @
           [Cpp_calculate_grid_internal_forces, Cpp_calculate_grid_acceleration,
            Cpp_update_grid_velocity, Cpp_calculate_material_velocity_gradient,
            Cpp_update_material_deformation_gradient, Cpp_update_material_volume,
            Cpp_update_material_stress,
            Save_pvd ''m'' t, Save_pvd ''U3'' t, Save_pvd ''a3'' t, Save_pvd ''f_int'' t,
            Print_item 0 ''grad_u'' 100, Print_item 0 ''epsilon'' 100,
            Print_item 0 ''sigma'' 100,
            Cpp_interpolate_grid_velocity_to_material, Cpp_advect_material_particles]"
    by (simp only: skeleton_mpm_step simp_thms)
  show ?thesis
    apply (rule conjI[OF G])
    apply (rule conjI[OF E])
    apply (rule D)
    done
qed

theorem mpm_steps_until_t_end_witness:
  "dt demo_model = Finite 1 \<and> (0::real) < 1 \<and> error_free no_failures demo_model \<and>
   dadd (Finite 0) (Finite 1) = Finite 1 \<and>
   dadd (Finite 1) (Finite 1) = Finite 2 \<and>
   dadd (Finite 2) (Finite 1) = Finite 3 \<and>
   mpm no_failures demo_model (Finite 0) (Finite 2) =
     Some \<lparr>calls = mpm_step demo_model (Finite 0) (Finite 0) @
                   mpm_step demo_model (Finite 0) (Finite 1) @
                   mpm_step demo_model (Finite 0) (Finite 2),
           time = Finite 3, raised = None\<rparr>"
proof -
  have n: "step_count 1 0 2 = 3" by (simp add: step_count_def)
  have u: "[0..<3] = [0, 1, 2]" by (simp add: upt_conv_Cons)
  have e: "dadd (Finite (real k)) (Finite 1) = Finite (real (Suc k))" if "k < 3" for k
    using that by (intro dadd_one_exact) simp
  have ex: "\<forall>k<step_count 1 0 2.
           dadd (Finite (0 + real k * 1)) (Finite 1) = Finite (0 + real (Suc k) * 1)"
    unfolding n using e by simp
  have s: "dadd (Finite 0) (Finite 1) = Finite 1" "dadd (Finite 1) (Finite 1) = Finite 2"
    "dadd (Finite 2) (Finite 1) = Finite 3"
    using e[of 0] e[of 1] e[of 2] by simp_all
  note t = mpm_steps_until_t_end[OF error_free_demo, where t_start = "Finite 0"
      and t_end = "Finite 2" and a = 0 and b = 2 and d = 1]
  from conjunct1[OF conjunct2[OF t]] dt_demo ex
  have "mpm no_failures demo_model (Finite 0) (Finite 2) =
     Some \<lparr>calls = mpm_step demo_model (Finite 0) (Finite 0) @
                   mpm_step demo_model (Finite 0) (Finite 1) @
                   mpm_step demo_model (Finite 0) (Finite 2),
           time = Finite 3, raised = None\<rparr>"
    unfolding n u by simp
  with dt_demo error_free_demo s show ?thesis by simp
qed




subsection \<open>Order of the stages within a pass\<close>

lemma precedes_append_skip:
  "a \<notin> set xs \<Longrightarrow> b \<notin> set xs \<Longrightarrow> precedes a b (xs @ ys) = precedes a b ys"
  by (induction xs) auto

lemma precedes_append_hit:
  "a \<in> set xs \<Longrightarrow> b \<notin> set xs \<Longrightarrow> precedes a b (xs @ ys) = (b \<in> set ys)"
  by (induction xs) auto

lemmas demo_defs = demo_model_def add_material_def Model_init_def for_materials_def

text \<open>
  C2, as stated, fails on the first pass of a run from time 0: the tensor initialisation
  does not come after the initial-volume calculation.
\<close>

theorem init_order_counterexample:
  "\<not> (precedes Cpp_calculate_material_density Cpp_calculate_material_initial_volume
         (mpm_step demo_model (Finite 0) (Finite 0)) \<and>
       precedes Cpp_calculate_material_initial_volume Cpp_initialize_material_tensors
         (mpm_step demo_model (Finite 0) (Finite 0)))"
  by (simp add: mpm_step_def stage_defs demo_defs)

text \<open>
  C2, amended. On a pass with \<open>t == t_start\<close>, and on no other pass, after the transfer
  of mass and velocity to the grid and before the grid internal forces, the pass runs the
  tensor initialisation, which first recomputes the particle velocity gradient, then the
  density calculation, then the initial-volume calculation. There is no state variable:
  whether a pass runs the block depends on the comparison \<open>t == t_start\<close> alone.
\<close>

theorem init_stage_order:
  "(deq t t_start \<longrightarrow>
      precedes Cpp_interpolate_material_mass_to_grid Cpp_interpolate_material_velocity_to_grid
        (mpm_step M t_start t)
      \<and> precedes Cpp_interpolate_material_velocity_to_grid
          Cpp_calculate_material_velocity_gradient (mpm_step M t_start t)
      \<and> precedes Cpp_calculate_material_velocity_gradient Cpp_initialize_material_tensors
          (mpm_step M t_start t)
      \<and> precedes Cpp_initialize_material_tensors Cpp_calculate_material_density
          (mpm_step M t_start t)
      \<and> precedes Cpp_calculate_material_density Cpp_calculate_material_initial_volume
          (mpm_step M t_start t)
      \<and> precedes Cpp_calculate_material_initial_volume Cpp_calculate_grid_internal_forces
          (mpm_step M t_start t))
   \<and> (\<not> deq t t_start \<longrightarrow>
        Cpp_initialize_material_tensors \<notin> set (mpm_step M t_start t) \<and>
        Cpp_calculate_material_density \<notin> set (mpm_step M t_start t) \<and>
        Cpp_calculate_material_initial_volume \<notin> set (mpm_step M t_start t))"
proof -
  have later: "Cpp_initialize_material_tensors \<notin> set (mpm_step M t_start t) \<and>
        Cpp_calculate_material_density \<notin> set (mpm_step M t_start t) \<and>
        Cpp_calculate_material_initial_volume \<notin> set (mpm_step M t_start t)"
    if "\<not> deq t t_start"
    using that by (simp add: mpm_step_def stage_defs in_for_materials)
  have 1: "precedes Cpp_interpolate_material_mass_to_grid
             Cpp_interpolate_material_velocity_to_grid (mpm_step M t_start t)"
    by (simp add: mpm_step_def stage_defs in_for_materials precedes_append_skip)
  have 2: "precedes Cpp_interpolate_material_velocity_to_grid
             Cpp_calculate_material_velocity_gradient (mpm_step M t_start t)"
    if "deq t t_start"
    using that by (simp add: mpm_step_def stage_defs in_for_materials precedes_append_skip)
  have 3: "precedes Cpp_calculate_material_velocity_gradient Cpp_initialize_material_tensors
             (mpm_step M t_start t)"
    if "deq t t_start"
    using that by (simp add: mpm_step_def stage_defs in_for_materials precedes_append_skip)
  have 4: "precedes Cpp_initialize_material_tensors Cpp_calculate_material_density
             (mpm_step M t_start t)"
    if "deq t t_start"
    using that by (simp add: mpm_step_def stage_defs in_for_materials precedes_append_skip)
  have 5: "precedes Cpp_calculate_material_density Cpp_calculate_material_initial_volume
             (mpm_step M t_start t)"
    if "deq t t_start"
    using that by (simp add: mpm_step_def stage_defs in_for_materials precedes_append_skip)
  have 6: "precedes Cpp_calculate_material_initial_volume Cpp_calculate_grid_internal_forces
             (mpm_step M t_start t)"
    if "deq t t_start"
    using that by (simp add: mpm_step_def stage_defs in_for_materials precedes_append_skip)
  from 1 2 3 4 5 6 later show ?thesis by blast
qed

theorem init_stage_order_witness:
  "deq (Finite 0) (Finite 0) \<and> \<not> deq (Finite 1) (Finite 0) \<and>
   precedes Cpp_calculate_material_velocity_gradient Cpp_initialize_material_tensors
     (mpm_step demo_model (Finite 0) (Finite 0)) \<and>
   precedes Cpp_initialize_material_tensors Cpp_calculate_material_density
     (mpm_step demo_model (Finite 0) (Finite 0)) \<and>
   precedes Cpp_calculate_material_density Cpp_calculate_material_initial_volume
     (mpm_step demo_model (Finite 0) (Finite 0)) \<and>
   Cpp_initialize_material_tensors \<notin> set (mpm_step demo_model (Finite 0) (Finite 1)) \<and>
   Cpp_calculate_material_density \<notin> set (mpm_step demo_model (Finite 0) (Finite 1))"
proof -
  have a: "deq (Finite 0) (Finite 0)" and b: "\<not> deq (Finite 1) (Finite 0)" by simp_all
  from init_stage_order[of "Finite 0" "Finite 0" demo_model]
    init_stage_order[of "Finite 1" "Finite 0" demo_model] a b
  show ?thesis by blast
qed

text \<open>
  C5, as stated, fails on the first pass of a run from time 0: the advection does not
  come before the snapshot of the nodal mass.
\<close>

theorem snapshot_order_counterexample:
  "\<not> precedes Cpp_advect_material_particles (Save_pvd ''m'' (Finite 0))
       (mpm_step demo_model (Finite 0) (Finite 0))"
  by (simp add: mpm_step_def stage_defs demo_defs)

text \<open>
  C5, amended. Within every pass the four snapshots (nodal mass, velocity, acceleration,
  internal force) are emitted after the stress update and before the particle advection,
  hence before the time variable is advanced, and every snapshot of the pass at time
  \<open>t\<close> carries the time stamp \<open>t\<close>.
\<close>

theorem snapshot_before_advection:
  "(\<forall>n \<in> set [''m'', ''U3'', ''a3'', ''f_int''].
      precedes Cpp_update_material_stress (Save_pvd n t) (mpm_step M t_start t) \<and>
      precedes (Save_pvd n t) Cpp_interpolate_grid_velocity_to_material (mpm_step M t_start t) \<and>
      precedes (Save_pvd n t) Cpp_advect_material_particles (mpm_step M t_start t))
   \<and> (\<forall>n t'. Save_pvd n t' \<in> set (mpm_step M t_start t) \<longrightarrow>
        t' = t \<and> n \<in> set [''m'', ''U3'', ''a3'', ''f_int''])"
proof -
  have a: "precedes Cpp_update_material_stress (Save_pvd n t) (mpm_step M t_start t)"
    if "n \<in> set [''m'', ''U3'', ''a3'', ''f_int'']" for n
    using that
    by (auto simp: mpm_step_def stage_defs in_for_materials precedes_append_skip)
  have b: "precedes (Save_pvd n t) Cpp_interpolate_grid_velocity_to_material
             (mpm_step M t_start t)"
    if "n \<in> set [''m'', ''U3'', ''a3'', ''f_int'']" for n
    using that
    by (auto simp: mpm_step_def stage_defs in_for_materials precedes_append_skip)
  have c: "precedes (Save_pvd n t) Cpp_advect_material_particles (mpm_step M t_start t)"
    if "n \<in> set [''m'', ''U3'', ''a3'', ''f_int'']" for n
    using that
    by (auto simp: mpm_step_def stage_defs in_for_materials precedes_append_skip)
  have d: "t' = t \<and> n \<in> set [''m'', ''U3'', ''a3'', ''f_int'']"
    if "Save_pvd n t' \<in> set (mpm_step M t_start t)" for n t'
    using that by (auto simp: mpm_step_def stage_defs in_for_materials split: if_splits)
  from a b c d show ?thesis by blast
qed

theorem snapshot_before_advection_witness:
  "''U3'' \<in> set [''m'', ''U3'', ''a3'', ''f_int''] \<and>
   Save_pvd ''U3'' (Finite 0) \<in> set (mpm_step demo_model (Finite 0) (Finite 0)) \<and>
   precedes Cpp_update_material_stress (Save_pvd ''U3'' (Finite 0))
     (mpm_step demo_model (Finite 0) (Finite 0)) \<and>
   precedes (Save_pvd ''U3'' (Finite 0)) Cpp_advect_material_particles
     (mpm_step demo_model (Finite 0) (Finite 0))"
proof -
  have 1: "''U3'' \<in> set [''m'', ''U3'', ''a3'', ''f_int'']" by simp
  have 2: "Save_pvd ''U3'' (Finite 0) \<in> set (mpm_step demo_model (Finite 0) (Finite 0))"
    by (simp add: mpm_step_def stage_defs demo_defs)
  from snapshot_before_advection[of "Finite 0" demo_model "Finite 0"] 1 2 show ?thesis by blast
qed

text \<open>
  C3. The claim holds of the documentation of \<open>advect_material_particles\<close>, not of its
  body: the pass interpolates the grid velocity to the particles before the advection,
  but no pass calls \<open>interpolate_grid_acceleration_to_material\<close>, so the attribute
  \<open>M.a\<close> is never stored. Shown in general and on the run of the demo model from 0 to 0.
\<close>

theorem acceleration_not_interpolated:
  "Store i ''a'' ''get_a'' \<notin> set (mpm_step M t_start t)
   \<and> precedes Cpp_interpolate_grid_velocity_to_material Cpp_advect_material_particles
       (mpm_step M t_start t)
   \<and> Store 0 ''a'' ''get_a'' \<in> set (interpolate_grid_acceleration_to_material demo_model)
   \<and> mpm no_failures demo_model (Finite 0) (Finite 0) =
       Some \<lparr>calls = mpm_step demo_model (Finite 0) (Finite 0), time = Finite 1, raised = None\<rparr>
   \<and> Store 0 ''a'' ''get_a'' \<notin> set (mpm_step demo_model (Finite 0) (Finite 0))"
proof -
  have g: "Store i ''a'' ''get_a'' \<notin> set (mpm_step M t_start t)"
    by (simp add: mpm_step_def stage_defs in_for_materials)
  have g0: "Store 0 ''a'' ''get_a'' \<notin> set (mpm_step demo_model (Finite 0) (Finite 0))"
    by (simp add: mpm_step_def stage_defs in_for_materials)
  have o: "precedes Cpp_interpolate_grid_velocity_to_material Cpp_advect_material_particles
       (mpm_step M t_start t)"
    by (simp add: mpm_step_def stage_defs in_for_materials precedes_append_skip)
  have m: "Store 0 ''a'' ''get_a'' \<in> set (interpolate_grid_acceleration_to_material demo_model)"
    by (simp add: interpolate_grid_acceleration_to_material_def demo_defs)
  have one: "dadd (Finite 0) (dt demo_model) = Finite 1"
    unfolding dt_demo using dadd_one_exact[of 0] by simp
  then have le: "\<forall>k<Suc 0. dle (loop_time (Finite 0) (dt demo_model) k) (Finite 0)"
    and gt: "\<not> dle (loop_time (Finite 0) (dt demo_model) (Suc 0)) (Finite 0)"
    by simp_all
  from mpm_loop_passes[OF error_free_demo le gt, of "Finite 0" "[]"] one
  have r: "mpm no_failures demo_model (Finite 0) (Finite 0) =
       Some \<lparr>calls = mpm_step demo_model (Finite 0) (Finite 0), time = Finite 1, raised = None\<rparr>"
    by (simp add: mpm_def)
  from g g0 o m r show ?thesis by blast
qed

subsection \<open>Density and reference volume\<close>















subsection \<open>Two-dimensional exchange with the grid\<close>





subsection \<open>Errors\<close>

text \<open>
  C8, as stated, fails on two runs. The run of the model whose only material has one
  particle is aborted in its first pass, and yet the calls of that pass up to the
  snapshots have been made and stay made, among them the engine's update of the particle
  volumes, its copy into \<open>M.V\<close> and the snapshot of the nodal mass. In the run in which
  the call made after 58 completed calls raises, the error is raised inside the advection
  stage, by the copy of the particle velocities into \<open>M.u\<close>: the failed pass has
  proceeded to the advection, and the engine has advected the particles.
\<close>

theorem partial_step_counterexample:
  "mpm no_failures small_model (Finite 0) (Finite 0) =
     Some \<lparr>calls = stages_before_prints small_model (Finite 0) (Finite 0), time = Finite 0,
           raised = Some Index_error\<rparr>
   \<and> stages_before_prints small_model (Finite 0) (Finite 0) \<noteq> []
   \<and> Cpp_update_material_volume \<in> set (stages_before_prints small_model (Finite 0) (Finite 0))
   \<and> Store 0 ''V'' ''get_V'' \<in> set (stages_before_prints small_model (Finite 0) (Finite 0))
   \<and> Save_pvd ''m'' (Finite 0) \<in> set (stages_before_prints small_model (Finite 0) (Finite 0))
   \<and> mpm (fails_at_call 58) demo_model (Finite 0) (Finite 0) =
       Some \<lparr>calls = take 58 (mpm_step demo_model (Finite 0) (Finite 0)), time = Finite 0,
             raised = Some (External_error (Store 0 ''u'' ''get_u''))\<rparr>
   \<and> Cpp_advect_material_particles \<in> set (take 58 (mpm_step demo_model (Finite 0) (Finite 0)))"
proof -
  have 1: "stages_before_prints small_model (Finite 0) (Finite 0) \<noteq> []"
    by (simp add: stages_before_prints_def stage_defs)
  have 2: "Cpp_update_material_volume \<in> set (stages_before_prints small_model (Finite 0) (Finite 0))"
    by (simp add: stages_before_prints_def stage_defs)
  have 3: "Store 0 ''V'' ''get_V'' \<in> set (stages_before_prints small_model (Finite 0) (Finite 0))"
    by (simp add: stages_before_prints_def stage_defs small_model_def add_material_def
        Model_init_def for_materials_def)
  have 4: "Save_pvd ''m'' (Finite 0) \<in> set (stages_before_prints small_model (Finite 0) (Finite 0))"
    by (simp add: stages_before_prints_def stage_defs)
  have len: "length (mpm_step demo_model (Finite 0) (Finite 0)) = 60"
    by (simp add: mpm_step_def stage_defs demo_defs)
  have at: "mpm_step demo_model (Finite 0) (Finite 0) ! 58 = Store 0 ''u'' ''get_u''"
    by (simp add: mpm_step_def stage_defs demo_defs)
  have "mpm (fails_at_call 58) demo_model (Finite 0) (Finite 0) =
           Some \<lparr>calls = concat (map (\<lambda>k. mpm_step demo_model (Finite 0)
                                            (loop_time (Finite 0) (dt demo_model) k)) [0..<0])
                          @ take 58 (mpm_step demo_model (Finite 0) (loop_time (Finite 0) (dt demo_model) 0)),
                 time = loop_time (Finite 0) (dt demo_model) 0,
                 raised = Some (External_error
                    (mpm_step demo_model (Finite 0) (loop_time (Finite 0) (dt demo_model) 0) ! 58))\<rparr>"
    by (rule fails_at_call_run[OF prints_in_range_demo]) (simp_all add: len at)
  then have 5: "mpm (fails_at_call 58) demo_model (Finite 0) (Finite 0) =
       Some \<lparr>calls = take 58 (mpm_step demo_model (Finite 0) (Finite 0)), time = Finite 0,
             raised = Some (External_error (Store 0 ''u'' ''get_u''))\<rparr>"
    by (simp add: at)
  have 6: "Cpp_advect_material_particles \<in> set (take 58 (mpm_step demo_model (Finite 0) (Finite 0)))"
    by (simp add: mpm_step_def stage_defs demo_defs)
  have 0: "mpm no_failures small_model (Finite 0) (Finite 0) =
     Some \<lparr>calls = stages_before_prints small_model (Finite 0) (Finite 0), time = Finite 0,
           raised = Some Index_error\<rparr>"
    by (rule small_model_run) simp
  from 0 1 2 3 4 5 6 show ?thesis by (simp only: simp_thms)
qed

text \<open>
  C8, amended. If the passes \<open>0, ..., n - 1\<close> of a run are entered and none of their calls
  raises, pass \<open>n\<close> is entered, and call number \<open>j\<close> of pass \<open>n\<close> is the first of it to raise,
  with the error \<open>e\<close>, then \<open>mpm\<close> ends there and the error reaches its caller: the result
  of the run is the error \<open>e\<close>; the log holds the completed passes and the first \<open>j\<close>
  calls of pass \<open>n\<close> and nothing more, so that nothing is retried and no call after the
  failing one is made, in this pass or in a later one; the time variable keeps the value
  of the failed pass. The calls made before the failing one, in the failed pass as in the
  completed passes, are in the log: they are not undone. If the failing call does not
  belong to the advection stage, no call of the advection stage has been made in the
  failed pass.
\<close>

theorem error_aborts_run:
  assumes "\<forall>k\<le>n. dle (loop_time t_start (dt M) k) t_end"
    and "\<forall>k<n. \<forall>i<length (mpm_step M t_start (loop_time t_start (dt M) k)).
        raises orc M
          (concat (map (\<lambda>k. mpm_step M t_start (loop_time t_start (dt M) k)) [0..<k]) @
           take i (mpm_step M t_start (loop_time t_start (dt M) k)))
          (mpm_step M t_start (loop_time t_start (dt M) k) ! i) = None"
    and "j < length (mpm_step M t_start (loop_time t_start (dt M) n))"
    and "\<forall>i<j.
        raises orc M
          (concat (map (\<lambda>k. mpm_step M t_start (loop_time t_start (dt M) k)) [0..<n]) @
           take i (mpm_step M t_start (loop_time t_start (dt M) n)))
          (mpm_step M t_start (loop_time t_start (dt M) n) ! i) = None"
    and "raises orc M
          (concat (map (\<lambda>k. mpm_step M t_start (loop_time t_start (dt M) k)) [0..<n]) @
           take j (mpm_step M t_start (loop_time t_start (dt M) n)))
          (mpm_step M t_start (loop_time t_start (dt M) n) ! j) = Some e"
  shows "mpm orc M t_start t_end =
           Some \<lparr>calls = concat (map (\<lambda>k. mpm_step M t_start (loop_time t_start (dt M) k)) [0..<n])
                          @ take j (mpm_step M t_start (loop_time t_start (dt M) n)),
                 time = loop_time t_start (dt M) n, raised = Some e\<rparr>
         \<and> (mpm_step M t_start (loop_time t_start (dt M) n) ! j
               \<notin> set (advect_material_particles M) \<longrightarrow>
             set (take j (mpm_step M t_start (loop_time t_start (dt M) n))) \<inter>
               set (advect_material_particles M) = {})"
  using mpm_raise_forward[OF assms] advection_not_reached[OF assms(3)] by blast

theorem error_aborts_run_witness:
  "mpm (fails_at_call 92) demo_model (Finite 0) (Finite 5) =
     Some \<lparr>calls = mpm_step demo_model (Finite 0) (Finite 0) @ take 32 (mpm_step demo_model (Finite 0) (Finite 1)),
           time = Finite 1,
           raised = Some (External_error Cpp_update_material_stress)\<rparr>
   \<and> Cpp_update_material_volume \<in> set (take 32 (mpm_step demo_model (Finite 0) (Finite 1)))
   \<and> set (take 32 (mpm_step demo_model (Finite 0) (Finite 1))) \<inter>
       set (advect_material_particles demo_model) = {}"
proof -
  have one: "dadd (Finite 0) (Finite 1) = Finite 1" using dadd_one_exact[of 0] by simp
  have lt0: "loop_time (Finite 0) (dt demo_model) 0 = Finite 0" by simp
  have lt1: "loop_time (Finite 0) (dt demo_model) (Suc 0) = Finite 1"
    by (simp only: loop_time.simps dt_demo one)
  have len0: "length (mpm_step demo_model (Finite 0) (Finite 0)) = 60"
    by (simp add: mpm_step_def stage_defs demo_defs)
  have len1: "length (mpm_step demo_model (Finite 0) (Finite 1)) = 47"
    by (simp add: mpm_step_def stage_defs demo_defs)
  have at: "mpm_step demo_model (Finite 0) (Finite 1) ! 32 = Cpp_update_material_stress"
    by (simp add: mpm_step_def stage_defs demo_defs)
  have enter: "\<forall>k\<le>Suc 0. dle (loop_time (Finite 0) (dt demo_model) k) (Finite 5)"
  proof (intro allI impI)
    fix k :: nat assume "k \<le> Suc 0"
    then have "k = 0 \<or> k = Suc 0" by auto
    then show "dle (loop_time (Finite 0) (dt demo_model) k) (Finite 5)"
      using lt0 lt1 by auto
  qed
  have N: "92 = length (concat (map (\<lambda>k. mpm_step demo_model (Finite 0)
                                   (loop_time (Finite 0) (dt demo_model) k)) [0..<Suc 0])) + 32"
    by (simp add: len0)
  have j: "32 < length (mpm_step demo_model (Finite 0) (loop_time (Finite 0) (dt demo_model) (Suc 0)))"
    unfolding lt1 by (simp add: len1)
  have np: "mpm_step demo_model (Finite 0) (loop_time (Finite 0) (dt demo_model) (Suc 0)) ! 32
              \<noteq> Print_item p a q" for p a q
    unfolding lt1 by (simp add: at)
  note t = error_aborts_run[OF enter
      fails_at_call_clean[OF prints_in_range_demo N] j
      fails_at_call_before[OF prints_in_range_demo N j]
      fails_at_call_fail[OF N j np]]
  have out: "Cpp_update_material_stress \<notin> set (advect_material_particles demo_model)"
    by (simp add: stage_defs demo_defs)
  have vol: "Cpp_update_material_volume \<in> set (take 32 (mpm_step demo_model (Finite 0) (Finite 1)))"
    by (simp add: mpm_step_def stage_defs demo_defs)
  from t[unfolded lt1 at] out vol show ?thesis by simp
qed

section \<open>Properties of the particle kinematics\<close>

subsection \<open>Initial volume\<close>

lemma cpp_initial_volume_fields:
  "V (cpp_calculate_material_initial_volume q) = m q / rho q"
  "V0 (cpp_calculate_material_initial_volume q) = m q / rho q"
  by (simp_all add: cpp_calculate_material_initial_volume_def)

text \<open>
  C4. After \<open>calculate_material_initial_volume\<close>, for every material and every particle
  of it with a density other than zero, the current volume \<open>M.V\<close> is \<open>m_p / rho_p\<close> and
  the reference volume \<open>M.V0\<close> equals \<open>M.V\<close>, in the arrays of the material as in the
  engine; that the method reads \<open>M.V0\<close> through \<open>get_V\<close> and \<open>M.V\<close> through \<open>get_V0\<close>
  makes no difference, the engine having just set both to the same quotient. (With a
  density of zero the quotient is not a real number.)
\<close>

theorem initial_volume_is_mass_over_density:
  assumes "i < length Ms" and "p < length (cpp_mat (Ms ! i))"
    and "rho (cpp_mat (Ms ! i) ! p) \<noteq> 0"
  shows "M_V (calculate_material_initial_volume_arrays Ms ! i) ! p =
           m (cpp_mat (Ms ! i) ! p) / rho (cpp_mat (Ms ! i) ! p)
         \<and> M_V0 (calculate_material_initial_volume_arrays Ms ! i) ! p =
           M_V (calculate_material_initial_volume_arrays Ms ! i) ! p
         \<and> V (cpp_mat (calculate_material_initial_volume_arrays Ms ! i) ! p) =
           m (cpp_mat (Ms ! i) ! p) / rho (cpp_mat (Ms ! i) ! p)
         \<and> V0 (cpp_mat (calculate_material_initial_volume_arrays Ms ! i) ! p) =
           V (cpp_mat (calculate_material_initial_volume_arrays Ms ! i) ! p)"
  using assms(1,2)
  by (simp add: calculate_material_initial_volume_arrays_def get_V_def get_V0_def
      cpp_initial_volume_fields)

theorem initial_volume_is_mass_over_density_witness:
  "(0::nat) < length demo_materials \<and> (0::nat) < length (cpp_mat (demo_materials ! 0)) \<and>
   rho (cpp_mat (demo_materials ! 0) ! 0) \<noteq> 0 \<and>
   M_V (calculate_material_initial_volume_arrays demo_materials ! 0) ! 0 = 2 \<and>
   M_V0 (calculate_material_initial_volume_arrays demo_materials ! 0) ! 0 = 2"
proof -
  have a: "(0::nat) < length demo_materials" by (simp add: demo_materials_def)
  have b: "(0::nat) < length (cpp_mat (demo_materials ! 0))" by (simp add: demo_materials_def)
  have c: "rho (cpp_mat (demo_materials ! 0) ! 0) \<noteq> 0"
    by (simp add: demo_materials_def unit_particle_def)
  have q: "m (cpp_mat (demo_materials ! 0) ! 0) / rho (cpp_mat (demo_materials ! 0) ! 0) = 2"
    by (simp add: demo_materials_def unit_particle_def)
  from initial_volume_is_mass_over_density[OF a b c] a b c show ?thesis
    unfolding q by simp
qed

subsection \<open>Volume and deformation gradient\<close>

lemma kinematic_step_V:
  "V (kinematic_step h g q) = det (increment h g) * V q"
  by (simp add: kinematic_step_def cpp_update_material_volume_def
      cpp_update_material_deformation_gradient_def)

lemma kinematic_step_V0: "V0 (kinematic_step h g q) = V0 q"
  by (simp add: kinematic_step_def cpp_update_material_volume_def
      cpp_update_material_deformation_gradient_def)

lemma foldl_kinematic_V:
  "V (foldl (\<lambda>q g. kinematic_step h g q) q gs) = prod_list (map (\<lambda>g. det (increment h g)) gs) * V q"
  by (induction gs arbitrary: q) (simp_all add: kinematic_step_V mult_ac)

lemma foldl_kinematic_V0:
  "V0 (foldl (\<lambda>q g. kinematic_step h g q) q gs) = V0 q"
  by (induction gs arbitrary: q) (simp_all add: kinematic_step_V0)

text \<open>
  The incremental form holds by construction: after any number of passes the volume is
  the reference volume times the running product of \<open>det (dF_p)\<close>.
\<close>

lemma volume_is_running_product:
  "V (kinematic_run h g0 gs p) =
     prod_list (map (\<lambda>g. det (increment h g)) gs) * V0 (kinematic_run h g0 gs p)"
  by (simp add: kinematic_run_def foldl_kinematic_V foldl_kinematic_V0 kinematic_init_def
      cpp_initial_volume_fields)

text \<open>
  C1. The volume invariant that the documentation of \<open>update_material_volume\<close> asserts is
  broken by the element-wise update of \<open>F_p\<close>. A particle of mass and density 1 with zero
  initial velocity gradient, after one pass with time step 1 and velocity gradient
  \<open>(0, 1, 1, 1)\<close>: the increment is \<open>(1, 1, 1, 2)\<close> with determinant 1, so the incremental
  volume stays 1, while \<open>F_p\<close> becomes \<open>(1, 0, 0, 2)\<close> and \<open>det (F_p) V0_p = 2\<close>. All the
  numbers involved are small integers, so rounding plays no part.
\<close>

theorem volume_forms_disagree:
  "V (kinematic_run 1 (0, 0, 0, 0) [(0, 1, 1, 1)] unit_particle) = 1
   \<and> V0 (kinematic_run 1 (0, 0, 0, 0) [(0, 1, 1, 1)] unit_particle) = 1
   \<and> dF (kinematic_run 1 (0, 0, 0, 0) [(0, 1, 1, 1)] unit_particle) = (1, 1, 1, 2)
   \<and> F (kinematic_run 1 (0, 0, 0, 0) [(0, 1, 1, 1)] unit_particle) = (1, 0, 0, 2)
   \<and> det (F (kinematic_run 1 (0, 0, 0, 0) [(0, 1, 1, 1)] unit_particle)) *
       V0 (kinematic_run 1 (0, 0, 0, 0) [(0, 1, 1, 1)] unit_particle) = 2"
  by (simp add: kinematic_run_def kinematic_init_def kinematic_step_def unit_particle_def
      cpp_update_material_volume_def cpp_update_material_deformation_gradient_def
      cpp_initialize_material_tensors_def cpp_calculate_material_initial_volume_def)

end
